theory Spec2Isabelle
  imports Complex_Main
begin

section \<open>The deployment script \<open>scripts/deploy-vault.ts\<close>\<close>

text \<open>
  The script reads its parameters from the process environment (\<open>loadConfig\<close>), then
  issues a fixed sequence of deployments and write transactions through hardhat's viem
  client. The embedding follows the script statement by statement:
  \<^item> JavaScript strings are \<open>string\<close>s (one \<open>char\<close> per code unit; the strings the
    theorems evaluate are ASCII);
  \<^item> \<open>process.env\<close> is a partial map from names to strings;
  \<^item> a thrown \<open>Error\<close> is the \<open>Inl\<close> of a sum, so that every \<open>throw\<close> is a branch;
  \<^item> the imported functions (\<open>parseUnits\<close>, \<open>encodeFunctionData\<close>, the hardhat
    network client) are parameters: their code is not part of the repository;
  \<^item> the environment is the one the script sees, after \<open>dotenv/config\<close> has loaded
    its file;
  \<^item> the top-level statements of the module are one function \<open>script\<close> that threads
    the list of events (library calls with their results, and console lines) in the
    order in which the script produces them.
\<close>

subsection \<open>JavaScript values\<close>

type_synonym address = string
type_synonym bytes = string
type_synonym abi = string
type_synonym environment = "string \<rightharpoonup> string"

text \<open>
  A JavaScript \<open>number\<close> as far as the script can produce one from a string: \<open>NaN\<close>,
  the two infinities, or a finite value. The finite value is kept as the exact rational
  the numeral denotes (JavaScript rounds it to the nearest double, and has a negative
  zero); the numerals the theorems evaluate are small integers, which are exact.
\<close>

datatype jsnumber = NaN | Num rat | PosInfinity | NegInfinity

definition isStrWhiteSpaceChar :: "char \<Rightarrow> bool" where
  "isStrWhiteSpaceChar c =
     (c = CHR 0x09 \<or> c = CHR 0x0A \<or> c = CHR 0x0B \<or> c = CHR 0x0C \<or> c = CHR 0x0D \<or> c = CHR 0x20
      \<or> c = CHR 0xA0)"

definition trimString :: "string \<Rightarrow> string" where
  "trimString s = rev (dropWhile isStrWhiteSpaceChar (rev (dropWhile isStrWhiteSpaceChar s)))"

text \<open>The value of a digit in a base up to 16, \<open>None\<close> for any other character.\<close>

definition digitValue :: "nat \<Rightarrow> char \<Rightarrow> nat option" where
  "digitValue base c =
     (let n = (of_char c :: nat);
          v = (if 48 \<le> n \<and> n \<le> 57 then Some (n - 48)
               else if 97 \<le> n \<and> n \<le> 102 then Some (n - 87)
               else if 65 \<le> n \<and> n \<le> 70 then Some (n - 55)
               else None)
      in case v of None \<Rightarrow> None | Some d \<Rightarrow> if d < base then Some d else None)"

definition isDigitOf :: "nat \<Rightarrow> char \<Rightarrow> bool" where
  "isDigitOf base c = (digitValue base c \<noteq> None)"

definition digitsValue :: "nat \<Rightarrow> string \<Rightarrow> nat" where
  "digitsValue base ds = foldl (\<lambda>acc c. acc * base + (case digitValue base c of None \<Rightarrow> 0 | Some d \<Rightarrow> d)) 0 ds"

text \<open>\<open>s.startsWith(p)\<close>.\<close>

definition startsWith :: "string \<Rightarrow> string \<Rightarrow> bool" where
  "startsWith s p = (take (length p) s = p)"

text \<open>
  \<open>m * 10 ^ e\<close> for an integer exponent \<open>e\<close>.
\<close>

definition scale10 :: "rat \<Rightarrow> int \<Rightarrow> rat" where
  "scale10 m e = (if 0 \<le> e then m * 10 ^ nat e else m / 10 ^ nat (- e))"

text \<open>
  The exponent part of a decimal literal: empty, or \<open>e\<close>/\<open>E\<close>, an optional sign and at
  least one digit. \<open>None\<close> when the text is anything else.
\<close>

definition exponentPart :: "string \<Rightarrow> int option" where
  "exponentPart s =
     (case s of
        [] \<Rightarrow> Some 0
      | c # t \<Rightarrow>
          if c = CHR ''e'' \<or> c = CHR ''E'' then
            (let neg = (t \<noteq> [] \<and> hd t = CHR ''-'');
                 ds = (if t \<noteq> [] \<and> (hd t = CHR ''-'' \<or> hd t = CHR ''+'') then tl t else t)
             in if ds \<noteq> [] \<and> list_all (isDigitOf 10) ds
                then Some (if neg then - int (digitsValue 10 ds) else int (digitsValue 10 ds))
                else None)
          else None)"

text \<open>
  An unsigned decimal literal of the grammar of \<open>StringToNumber\<close>: \<open>Infinity\<close>, or digits
  with an optional fraction and exponent, with at least one digit before or after the
  point.
\<close>

definition unsignedDecimal :: "string \<Rightarrow> jsnumber" where
  "unsignedDecimal s =
     (if s = ''Infinity'' then PosInfinity
      else
        let ip = takeWhile (isDigitOf 10) s;
            r1 = dropWhile (isDigitOf 10) s;
            fp = (case r1 of [] \<Rightarrow> [] | c # t \<Rightarrow> if c = CHR ''.'' then takeWhile (isDigitOf 10) t else []);
            r2 = (case r1 of [] \<Rightarrow> [] | c # t \<Rightarrow> if c = CHR ''.'' then dropWhile (isDigitOf 10) t else r1)
        in if ip = [] \<and> fp = [] then NaN
           else case exponentPart r2 of
                  None \<Rightarrow> NaN
                | Some e \<Rightarrow> Num (scale10 (of_nat (digitsValue 10 (ip @ fp))) (e - int (length fp))))"

definition negateNumber :: "jsnumber \<Rightarrow> jsnumber" where
  "negateNumber x =
     (case x of NaN \<Rightarrow> NaN | Num q \<Rightarrow> Num (- q) | PosInfinity \<Rightarrow> NegInfinity | NegInfinity \<Rightarrow> PosInfinity)"

definition nonDecimalInteger :: "nat \<Rightarrow> string \<Rightarrow> jsnumber" where
  "nonDecimalInteger base ds =
     (if ds \<noteq> [] \<and> list_all (isDigitOf base) ds then Num (of_nat (digitsValue base ds)) else NaN)"

text \<open>
  \<open>Number(s)\<close> on a string: white space is trimmed (here the white space and line
  terminators among the code units below 256: tab, line feed, vertical tab, form feed,
  carriage return, space and no-break space), the empty string is \<open>0\<close>, a
  \<open>0x\<close>/\<open>0o\<close>/\<open>0b\<close> literal is an unsigned integer in that base, anything else is an
  optionally signed decimal literal, and a string outside the grammar is \<open>NaN\<close>.
  \<open>Number\<close> never throws.
\<close>

definition Number :: "string \<Rightarrow> jsnumber" where
  "Number s =
     (let t = trimString s in
      if t = [] then Num 0
      else if startsWith t ''0x'' \<or> startsWith t ''0X'' then nonDecimalInteger 16 (drop 2 t)
      else if startsWith t ''0o'' \<or> startsWith t ''0O'' then nonDecimalInteger 8 (drop 2 t)
      else if startsWith t ''0b'' \<or> startsWith t ''0B'' then nonDecimalInteger 2 (drop 2 t)
      else if hd t = CHR ''-'' then negateNumber (unsignedDecimal (tl t))
      else if hd t = CHR ''+'' then unsignedDecimal (tl t)
      else unsignedDecimal t)"

subsection \<open>Errors\<close>

text \<open>
  The two errors the script throws itself, named after the message of the \<open>Error\<close>
  they carry (see \<open>message\<close>), and the failures of the imported functions:
  \<open>parseUnits\<close> rejecting its input, a chain operation failing, and the \<open>TypeError\<close>
  of reading a property of \<open>undefined\<close>.
\<close>

datatype error =
    MissingConfiguration string
  | InvalidAddressFormat string
  | InvalidAmountFormat string
  | ChainOperationFailure string
  | TypeError string

fun message :: "error \<Rightarrow> string" where
  "message (MissingConfiguration name) = ''Missing required env var '' @ name"
| "message (InvalidAddressFormat name) = ''Env var '' @ name @ '' must be a 20-byte hex address''"
| "message (InvalidAmountFormat m) = m"
| "message (ChainOperationFailure m) = m"
| "message (TypeError m) = m"

definition thenE :: "error + 'a \<Rightarrow> ('a \<Rightarrow> error + 'b) \<Rightarrow> error + 'b" where
  "thenE r f = (case r of Inl e \<Rightarrow> Inl e | Inr x \<Rightarrow> f x)"

subsection \<open>Configuration loader\<close>

record DeployConfig =
  asset :: address
  aToken :: address
  addressesProvider :: address
  verifier :: address
  maxUserDeposit :: int
  maxTotalDeposit :: int
  assetDecimals :: jsnumber
  rebalancer :: "address option"
  authorizeVaultOnVerifier :: bool

text \<open>
  \<open>requireAddress\<close>: \<open>!value\<close> holds for \<open>undefined\<close> and for the empty string; the
  format check is the prefix and the length, nothing else.
\<close>

definition requireAddress :: "environment \<Rightarrow> string \<Rightarrow> error + address" where
  "requireAddress env name =
     (case env name of
        None \<Rightarrow> Inl (MissingConfiguration name)
      | Some v \<Rightarrow>
          if v = [] then Inl (MissingConfiguration name)
          else if \<not> startsWith v ''0x'' \<or> length v \<noteq> 42 then Inl (InvalidAddressFormat name)
          else Inr v)"

text \<open>
  \<open>getAmountEnv\<close>: \<open>??\<close> replaces \<open>undefined\<close> only, so an empty value is parsed as
  it is. The first argument is the imported \<open>parseUnits\<close>.
\<close>

definition getAmountEnv ::
  "(string \<Rightarrow> jsnumber \<Rightarrow> error + int) \<Rightarrow> environment \<Rightarrow> string \<Rightarrow> jsnumber \<Rightarrow> string \<Rightarrow> error + int"
where
  "getAmountEnv pu env name decimals fallback =
     pu (case env name of None \<Rightarrow> fallback | Some raw \<Rightarrow> raw) decimals"

text \<open>
  \<open>loadConfig\<close>: the decimals are computed first, then the fields of the object
  literal in the order they are written; the first \<open>throw\<close> ends the function.
\<close>

definition loadConfig ::
  "(string \<Rightarrow> jsnumber \<Rightarrow> error + int) \<Rightarrow> environment \<Rightarrow> error + DeployConfig"
where
  "loadConfig pu env =
     (let decimals = Number (case env ''ASSET_DECIMALS'' of None \<Rightarrow> ''18'' | Some v \<Rightarrow> v) in
      thenE (requireAddress env ''ASSET_ADDRESS'') (\<lambda>a.
      thenE (requireAddress env ''ATOKEN_ADDRESS'') (\<lambda>t.
      thenE (requireAddress env ''AAVE_PROVIDER_ADDRESS'') (\<lambda>p.
      thenE (requireAddress env ''VERIFIER_ADDRESS'') (\<lambda>v.
      thenE (getAmountEnv pu env ''MAX_USER_DEPOSIT'' decimals ''1000'') (\<lambda>mu.
      thenE (getAmountEnv pu env ''MAX_TOTAL_DEPOSIT'' decimals ''10000'') (\<lambda>mt.
      Inr \<lparr> asset = a, aToken = t, addressesProvider = p, verifier = v,
            maxUserDeposit = mu, maxTotalDeposit = mt, assetDecimals = decimals,
            rebalancer = env ''REBALANCER_ADDRESS'',
            authorizeVaultOnVerifier = (env ''AUTHORIZE_VAULT'' = Some ''true'') \<rparr>)))))))"

text \<open>
  Modelled from the spec: the value of a "valid decimal numeral", read as digits with
  an optional fraction of at least one digit. \<open>parseUnits\<close>, which decides what a
  valid numeral is, is imported from the viem library and is not part of the
  repository.
\<close>

definition decimalValue :: "string \<Rightarrow> rat option" where
  "decimalValue s =
     (let ip = takeWhile (isDigitOf 10) s;
          r = dropWhile (isDigitOf 10) s
      in if ip = [] then None
         else if r = [] then Some (of_nat (digitsValue 10 ip))
         else if hd r = CHR ''.'' \<and> tl r \<noteq> [] \<and> list_all (isDigitOf 10) (tl r)
           then Some (scale10 (of_nat (digitsValue 10 (ip @ tl r))) (- int (length (tl r))))
         else None)"

text \<open>
  Modelled from the spec: the scale that the \<open>decimals\<close> argument stands for, when it
  is a natural number (the spec has "a small non-negative integer").
\<close>

definition scaleOf :: "jsnumber \<Rightarrow> nat option" where
  "scaleOf d = (case d of Num q \<Rightarrow> if 0 \<le> q \<and> of_int \<lfloor>q\<rfloor> = q then Some (nat \<lfloor>q\<rfloor>) else None | _ \<Rightarrow> None)"

text \<open>
  Modelled from the spec: \<open>parseUnits\<close> "parses the decimal string into a fixed-point
  integer scaled by \<open>decimals\<close>" and "fails with \<open>InvalidAmountFormat\<close> if the string is
  not a valid decimal numeral representable at that scale". A numeral is representable
  at scale \<open>d\<close> when its value times \<open>10 ^ d\<close> is an integer.
\<close>

definition parseUnits :: "string \<Rightarrow> jsnumber \<Rightarrow> error + int" where
  "parseUnits raw decimals =
     (case decimalValue raw of
        None \<Rightarrow> Inl (InvalidAmountFormat raw)
      | Some q \<Rightarrow>
          (case scaleOf decimals of
             None \<Rightarrow> Inl (InvalidAmountFormat raw)
           | Some d \<Rightarrow>
               if of_int \<lfloor>q * 10 ^ d\<rfloor> = q * 10 ^ d then Inr \<lfloor>q * 10 ^ d\<rfloor>
               else Inl (InvalidAmountFormat raw)))"

subsection \<open>The chain client and the events of a run\<close>

text \<open>
  A deployed contract, or a handle obtained for an address: its address and its
  interface. An argument of a constructor or of a contract function is an address, an
  unsigned integer or a byte string.
\<close>

record contract =
  address :: address
  abi :: abi

datatype arg = AddressArg address | UintArg int | BytesArg bytes

text \<open>
  The operations the script asks of the imported libraries. Every deployment and write
  is sent from \<open>deployer.account\<close>, so the account is not repeated in the call.
  \<open>Write a f args\<close> is \<open>c.write.f(args)\<close> on the handle \<open>c\<close> at address \<open>a\<close>.
  \<open>EncodeFunctionData\<close> is no network call; it is listed with the others so that a
  run shows what was encoded. A wallet client is represented by the address of its
  account, the only part of it the script reads.
\<close>

datatype call =
    Connect
  | GetPublicClient
  | GetWalletClients
  | GetChainId
  | DeployContract string "arg list"
  | EncodeFunctionData abi string "arg list"
  | GetContractAt string address
  | Write address string "arg list"

datatype reply =
    Done
  | Accounts "address list"
  | ChainId nat
  | Deployed contract
  | Encoded bytes
  | Handle contract

datatype logged = Text string | Count nat

datatype event =
    Call call "error + reply"
  | Log "logged list"

text \<open>
  The imported libraries. Each operation may fail, and what it answers may depend on
  everything that happened before: it is a function of the events so far.
  \<open>encodeFunctionData\<close> is pure data encoding and sees no history.
  \<open>getContractAt\<close> answers with the interface of the named artifact; the handle it
  stands for is at the address that was asked for.
\<close>

record client =
  connect :: "event list \<Rightarrow> error + unit"
  getPublicClient :: "event list \<Rightarrow> error + unit"
  getWalletClients :: "event list \<Rightarrow> error + address list"
  getChainId :: "event list \<Rightarrow> error + nat"
  deployContract :: "event list \<Rightarrow> string \<Rightarrow> arg list \<Rightarrow> error + contract"
  encodeFunctionData :: "abi \<Rightarrow> string \<Rightarrow> arg list \<Rightarrow> error + bytes"
  getContractAt :: "event list \<Rightarrow> string \<Rightarrow> address \<Rightarrow> error + abi"
  sendWrite :: "event list \<Rightarrow> address \<Rightarrow> string \<Rightarrow> arg list \<Rightarrow> error + unit"

text \<open>
  A step of the script takes the events so far and gives its result with the events
  extended. \<open>andThen\<close> is the semicolon between two awaited statements: a failure ends
  the run where it happens, since the script has no \<open>try\<close>.
\<close>

type_synonym 'a step = "event list \<Rightarrow> (error + 'a) \<times> event list"

definition andThen :: "'a step \<Rightarrow> ('a \<Rightarrow> 'b step) \<Rightarrow> 'b step" where
  "andThen m f h = (case m h of (Inl e, h') \<Rightarrow> (Inl e, h') | (Inr x, h') \<Rightarrow> f x h')"

definition finish :: "'a \<Rightarrow> 'a step" where
  "finish x h = (Inr x, h)"

definition throw :: "error \<Rightarrow> 'a step" where
  "throw e h = (Inl e, h)"

definition consoleLog :: "logged list \<Rightarrow> unit step" where
  "consoleLog line h = (Inr (), h @ [Log line])"

definition perform :: "call \<Rightarrow> ('a \<Rightarrow> reply) \<Rightarrow> (event list \<Rightarrow> error + 'a) \<Rightarrow> 'a step" where
  "perform c wrap answer h = (answer h, h @ [Call c (map_sum id wrap (answer h))])"

subsection \<open>The script\<close>

text \<open>
  Lines 52 to 119 of the script, after \<open>loadConfig\<close> has returned \<open>params\<close>.
  \<open>const [deployer] = ...\<close> leaves \<open>deployer\<close> undefined on an empty list, and the
  next statement, which reads \<open>deployer.account\<close>, throws a \<open>TypeError\<close>. A string is
  truthy exactly when it is not empty.
\<close>

definition deployment :: "client \<Rightarrow> DeployConfig \<Rightarrow> unit step" where
  "deployment w params =
     andThen (perform Connect (\<lambda>_. Done) (connect w)) (\<lambda>_.
     andThen (perform GetPublicClient (\<lambda>_. Done) (getPublicClient w)) (\<lambda>_.
     andThen (perform GetWalletClients Accounts (getWalletClients w)) (\<lambda>accounts.
     andThen (case accounts of
                [] \<Rightarrow> throw (TypeError ''Cannot read properties of undefined (reading 'account')'')
              | d # _ \<Rightarrow> finish d) (\<lambda>deployer.
     andThen (consoleLog [Text ''Deploying with account:'', Text deployer]) (\<lambda>_.
     andThen (perform GetChainId ChainId (getChainId w)) (\<lambda>chainId.
     andThen (consoleLog [Text ''Chain id:'', Count chainId]) (\<lambda>_.
     andThen (consoleLog [Text ''Deploying AaveV3Strategy...'']) (\<lambda>_.
     andThen (perform (DeployContract ''AaveV3Strategy''
                         [AddressArg (asset params), AddressArg (aToken params),
                          AddressArg (addressesProvider params)])
                Deployed
                (\<lambda>h. deployContract w h ''AaveV3Strategy''
                         [AddressArg (asset params), AddressArg (aToken params),
                          AddressArg (addressesProvider params)])) (\<lambda>strategy.
     andThen (consoleLog [Text ''Deploying AttestifyVault implementation...'']) (\<lambda>_.
     andThen (perform (DeployContract ''AttestifyVault'' []) Deployed
                (\<lambda>h. deployContract w h ''AttestifyVault'' [])) (\<lambda>vaultImplementation.
     andThen (perform (EncodeFunctionData (abi vaultImplementation) ''initialize''
                         [AddressArg (asset params), AddressArg (address strategy),
                          AddressArg (verifier params), UintArg (maxUserDeposit params),
                          UintArg (maxTotalDeposit params)])
                Encoded
                (\<lambda>_. encodeFunctionData w (abi vaultImplementation) ''initialize''
                         [AddressArg (asset params), AddressArg (address strategy),
                          AddressArg (verifier params), UintArg (maxUserDeposit params),
                          UintArg (maxTotalDeposit params)])) (\<lambda>initData.
     andThen (consoleLog [Text ''Deploying ERC1967 proxy...'']) (\<lambda>_.
     andThen (perform (DeployContract ''TestProxy''
                         [AddressArg (address vaultImplementation), BytesArg initData])
                Deployed
                (\<lambda>h. deployContract w h ''TestProxy''
                         [AddressArg (address vaultImplementation), BytesArg initData])) (\<lambda>proxy.
     andThen (perform (GetContractAt ''AttestifyVault'' (address proxy))
                (\<lambda>i. Handle \<lparr>address = address proxy, abi = i\<rparr>)
                (\<lambda>h. getContractAt w h ''AttestifyVault'' (address proxy))) (\<lambda>vaultAbi.
     andThen (finish \<lparr>address = address proxy, abi = vaultAbi\<rparr>) (\<lambda>vault.
     andThen (consoleLog [Text ''Vault proxy deployed at:'', Text (address vault)]) (\<lambda>_.
     andThen (consoleLog [Text ''Linking strategy to vault...'']) (\<lambda>_.
     andThen (perform (Write (address strategy) ''setVault'' [AddressArg (address vault)])
                (\<lambda>_. Done)
                (\<lambda>h. sendWrite w h (address strategy) ''setVault'' [AddressArg (address vault)])) (\<lambda>_.
     andThen (case rebalancer params of
                None \<Rightarrow> finish ()
              | Some r \<Rightarrow>
                  if r \<noteq> [] \<and> r \<noteq> deployer then
                    andThen (consoleLog [Text ''Setting custom rebalancer:'', Text r]) (\<lambda>_.
                    perform (Write (address vault) ''setRebalancer'' [AddressArg r])
                      (\<lambda>_. Done)
                      (\<lambda>h. sendWrite w h (address vault) ''setRebalancer'' [AddressArg r]))
                  else finish ()) (\<lambda>_.
     andThen (if authorizeVaultOnVerifier params then
                andThen (consoleLog [Text ''Authorizing vault on verifier...'']) (\<lambda>_.
                andThen (perform (GetContractAt ''SelfProtocolVerifier'' (verifier params))
                           (\<lambda>i. Handle \<lparr>address = verifier params, abi = i\<rparr>)
                           (\<lambda>h. getContractAt w h ''SelfProtocolVerifier'' (verifier params))) (\<lambda>_.
                perform (Write (verifier params) ''authorizeCaller'' [AddressArg (address vault)])
                  (\<lambda>_. Done)
                  (\<lambda>h. sendWrite w h (verifier params) ''authorizeCaller'' [AddressArg (address vault)])))
              else finish ()) (\<lambda>_.
     andThen (consoleLog [Text (CHR 0x0A # ''Deployment complete:'')]) (\<lambda>_.
     andThen (consoleLog [Text ''- Strategy:'', Text (address strategy)]) (\<lambda>_.
     andThen (consoleLog [Text ''- Vault Implementation:'', Text (address vaultImplementation)]) (\<lambda>_.
     andThen (consoleLog [Text ''- Vault Proxy:'', Text (address vault)]) (\<lambda>_.
     andThen (consoleLog [Text (CHR 0x0A # ''Remember to:'')]) (\<lambda>_.
     andThen (consoleLog [Text ''1. Fund the vault with reserves if needed.'']) (\<lambda>_.
     andThen (consoleLog [Text ''2. Verify contracts on the block explorer.'']) (\<lambda>_.
     consoleLog [Text ''3. Configure rebalancer/treasury roles and deposit limits as required.''])
     )))))))))))))))))))))))))))"

text \<open>
  The whole module: \<open>loadConfig\<close> runs first, and when it throws nothing else happens.
  The result is the outcome at the process boundary (the uncaught error, or normal
  completion) and the events of the run.
\<close>

definition script ::
  "(string \<Rightarrow> jsnumber \<Rightarrow> error + int) \<Rightarrow> client \<Rightarrow> environment \<Rightarrow> (error + unit) \<times> event list"
where
  "script pu w env =
     (case loadConfig pu env of
        Inl e \<Rightarrow> (Inl e, [])
      | Inr params \<Rightarrow> deployment w params [])"

subsection \<open>Observing a run\<close>

text \<open>The library calls of a run, in order, and the write transactions among them.\<close>

fun calls :: "event list \<Rightarrow> call list" where
  "calls [] = []"
| "calls (Call c r # evs) = c # calls evs"
| "calls (Log line # evs) = calls evs"

fun isWrite :: "call \<Rightarrow> bool" where
  "isWrite (Write a f xs) = True"
| "isWrite c = False"

definition writes :: "event list \<Rightarrow> call list" where
  "writes evs = filter isWrite (calls evs)"

fun isWriteOf :: "string \<Rightarrow> call \<Rightarrow> bool" where
  "isWriteOf g (Write a f xs) = (f = g)"
| "isWriteOf g c = False"

definition writesOf :: "string \<Rightarrow> event list \<Rightarrow> call list" where
  "writesOf g evs = filter (isWriteOf g) (calls evs)"

fun isGetContractAt :: "call \<Rightarrow> bool" where
  "isGetContractAt (GetContractAt n a) = True"
| "isGetContractAt c = False"

fun isEncodeFunctionData :: "call \<Rightarrow> bool" where
  "isEncodeFunctionData (EncodeFunctionData i f xs) = True"
| "isEncodeFunctionData c = False"

fun isDeployOf :: "string \<Rightarrow> call \<Rightarrow> bool" where
  "isDeployOf n (DeployContract m xs) = (m = n)"
| "isDeployOf n c = False"

text \<open>The artifacts deployed, in the order of their deployments.\<close>

fun deployedNames :: "call list \<Rightarrow> string list" where
  "deployedNames [] = []"
| "deployedNames (DeployContract n xs # cs) = n # deployedNames cs"
| "deployedNames (c # cs) = deployedNames cs"

text \<open>The deployer: the first account \<open>getWalletClients\<close> answered with.\<close>

fun deployerOf :: "event list \<Rightarrow> address option" where
  "deployerOf [] = None"
| "deployerOf (Call GetWalletClients (Inr (Accounts (d # ds))) # evs) = Some d"
| "deployerOf (ev # evs) = deployerOf evs"

text \<open>The contract a successful deployment of the named artifact answered with.\<close>

fun deployedAs :: "string \<Rightarrow> event list \<Rightarrow> contract option" where
  "deployedAs n [] = None"
| "deployedAs n (Call (DeployContract m xs) (Inr (Deployed c)) # evs) =
     (if m = n then Some c else deployedAs n evs)"
| "deployedAs n (ev # evs) = deployedAs n evs"

text \<open>The data a successful \<open>encodeFunctionData\<close> answered with.\<close>

fun encodedData :: "event list \<Rightarrow> bytes option" where
  "encodedData [] = None"
| "encodedData (Call c (Inr (Encoded d)) # evs) = Some d"
| "encodedData (ev # evs) = encodedData evs"

text \<open>
  The four required address variables, in the order in which \<open>loadConfig\<close> reads them,
  and the pattern of a 20-byte hex address: \<open>0x\<close> and 40 hex characters.
\<close>

definition requiredAddresses :: "string list" where
  "requiredAddresses =
     [''ASSET_ADDRESS'', ''ATOKEN_ADDRESS'', ''AAVE_PROVIDER_ADDRESS'', ''VERIFIER_ADDRESS'']"

definition wellFormed :: "environment \<Rightarrow> string \<Rightarrow> bool" where
  "wellFormed env name =
     (case env name of None \<Rightarrow> False | Some v \<Rightarrow> startsWith v ''0x'' \<and> length v = 42)"

definition isHexAddress :: "string \<Rightarrow> bool" where
  "isHexAddress v = (startsWith v ''0x'' \<and> length v = 42 \<and> list_all (isDigitOf 16) (drop 2 v))"

text \<open>
  Modelled from the spec: whether a string is "a valid decimal numeral representable at
  that scale" (see \<open>parseUnits\<close>).
\<close>

definition representable :: "string \<Rightarrow> jsnumber \<Rightarrow> bool" where
  "representable raw decimals =
     (case decimalValue raw of
        None \<Rightarrow> False
      | Some q \<Rightarrow>
          (case scaleOf decimals of
             None \<Rightarrow> False
           | Some d \<Rightarrow> of_int \<lfloor>q * 10 ^ d\<rfloor> = q * 10 ^ d))"

text \<open>
  A client on which every operation succeeds, and which has at least one account.
\<close>

definition reliable :: "client \<Rightarrow> bool" where
  "reliable w \<longleftrightarrow>
     (\<forall>h. connect w h = Inr ())
     \<and> (\<forall>h. getPublicClient w h = Inr ())
     \<and> (\<forall>h. \<exists>d ds. getWalletClients w h = Inr (d # ds))
     \<and> (\<forall>h. \<exists>n. getChainId w h = Inr n)
     \<and> (\<forall>h n xs. \<exists>c. deployContract w h n xs = Inr c)
     \<and> (\<forall>i f xs. \<exists>d. encodeFunctionData w i f xs = Inr d)
     \<and> (\<forall>h n a. \<exists>i. getContractAt w h n a = Inr i)
     \<and> (\<forall>h a f xs. sendWrite w h a f xs = Inr ())"

subsection \<open>Sample environments and clients\<close>

definition sampleEnv :: environment where
  "sampleEnv =
     [''ASSET_ADDRESS'' \<mapsto> ''0x'' @ replicate 40 CHR ''a'',
      ''ATOKEN_ADDRESS'' \<mapsto> ''0x'' @ replicate 40 CHR ''b'',
      ''AAVE_PROVIDER_ADDRESS'' \<mapsto> ''0x'' @ replicate 40 CHR ''c'',
      ''VERIFIER_ADDRESS'' \<mapsto> ''0x'' @ replicate 40 CHR ''d'']"

text \<open>
  The environment of the end-to-end scenario: the four addresses,
  \<open>MAX_USER_DEPOSIT=500\<close> and \<open>ASSET_DECIMALS=6\<close>, nothing else.
\<close>

definition scenarioEnv :: environment where
  "scenarioEnv = sampleEnv(''MAX_USER_DEPOSIT'' \<mapsto> ''500'', ''ASSET_DECIMALS'' \<mapsto> ''6'')"

text \<open>
  A client on which every operation succeeds: one account, chain 31337, and a
  deployment of artifact \<open>n\<close> answered with the address \<open>0x\<close>\<open>n\<close>.
\<close>

definition mockClient :: client where
  "mockClient =
     \<lparr> connect = (\<lambda>h. Inr ()),
       getPublicClient = (\<lambda>h. Inr ()),
       getWalletClients = (\<lambda>h. Inr [''0xdeployer'']),
       getChainId = (\<lambda>h. Inr 31337),
       deployContract = (\<lambda>h n xs. Inr \<lparr>address = ''0x'' @ n, abi = n\<rparr>),
       encodeFunctionData = (\<lambda>i f xs. Inr ''0xinit''),
       getContractAt = (\<lambda>h n a. Inr n),
       sendWrite = (\<lambda>h a f xs. Inr ()) \<rparr>"

text \<open>The same client, on which the deployment of the proxy fails.\<close>

definition failingProxyClient :: client where
  "failingProxyClient =
     mockClient \<lparr> deployContract :=
       (\<lambda>h n xs. if n = ''TestProxy'' then Inl (ChainOperationFailure ''rpc error'')
                  else Inr \<lparr>address = ''0x'' @ n, abi = n\<rparr>) \<rparr>"

subsection \<open>Facts about the configuration loader\<close>

lemma thenE_Inl [simp]: "thenE (Inl e) f = Inl e"
  by (simp add: thenE_def)

lemma thenE_Inr [simp]: "thenE (Inr x) f = f x"
  by (simp add: thenE_def)

lemma requireAddress_Inr_iff:
  "requireAddress env name = Inr a \<longleftrightarrow>
     env name = Some a \<and> a \<noteq> [] \<and> startsWith a ''0x'' \<and> length a = 42"
  by (auto simp: requireAddress_def split: option.splits)

lemma wellFormed_requireAddress:
  "wellFormed env name \<Longrightarrow> \<exists>a. requireAddress env name = Inr a"
  by (auto simp: wellFormed_def requireAddress_def split: option.splits)

lemma requireAddress_absent:
  "env name = None \<or> env name = Some [] \<Longrightarrow>
     requireAddress env name = Inl (MissingConfiguration name)"
  by (auto simp: requireAddress_def)

lemma requireAddress_malformed:
  "env name = Some v \<Longrightarrow> v \<noteq> [] \<Longrightarrow> \<not> startsWith v ''0x'' \<or> length v \<noteq> 42 \<Longrightarrow>
     requireAddress env name = Inl (InvalidAddressFormat name)"
  by (auto simp: requireAddress_def)

lemma requiredAddresses_split:
  assumes "requiredAddresses = pre @ name # post"
  shows "(pre = [] \<and> name = ''ASSET_ADDRESS'')
       \<or> (pre = [''ASSET_ADDRESS''] \<and> name = ''ATOKEN_ADDRESS'')
       \<or> (pre = [''ASSET_ADDRESS'', ''ATOKEN_ADDRESS''] \<and> name = ''AAVE_PROVIDER_ADDRESS'')
       \<or> (pre = [''ASSET_ADDRESS'', ''ATOKEN_ADDRESS'', ''AAVE_PROVIDER_ADDRESS'']
            \<and> name = ''VERIFIER_ADDRESS'')"
  using assms unfolding requiredAddresses_def
  by (auto simp: Cons_eq_append_conv)

lemma loadConfig_first_failure:
  assumes split: "requiredAddresses = pre @ name # post"
    and before: "\<forall>u\<in>set pre. wellFormed env u"
    and fails: "requireAddress env name = Inl e"
  shows "loadConfig pu env = Inl e"
proof -
  have ok: "u \<in> set pre \<Longrightarrow> \<exists>a. requireAddress env u = Inr a" for u
    using before wellFormed_requireAddress by blast
  from requiredAddresses_split [OF split] show ?thesis
  proof (elim disjE conjE)
    assume "pre = []" "name = ''ASSET_ADDRESS''"
    with fails show ?thesis by (simp add: loadConfig_def)
  next
    assume p: "pre = [''ASSET_ADDRESS'']" and n: "name = ''ATOKEN_ADDRESS''"
    from ok p obtain a where "requireAddress env ''ASSET_ADDRESS'' = Inr a" by auto
    with fails n show ?thesis by (simp add: loadConfig_def)
  next
    assume p: "pre = [''ASSET_ADDRESS'', ''ATOKEN_ADDRESS'']" and n: "name = ''AAVE_PROVIDER_ADDRESS''"
    from ok p obtain a where "requireAddress env ''ASSET_ADDRESS'' = Inr a" by auto
    moreover from ok p obtain b where "requireAddress env ''ATOKEN_ADDRESS'' = Inr b" by auto
    ultimately show ?thesis using fails n by (simp add: loadConfig_def)
  next
    assume p: "pre = [''ASSET_ADDRESS'', ''ATOKEN_ADDRESS'', ''AAVE_PROVIDER_ADDRESS'']"
      and n: "name = ''VERIFIER_ADDRESS''"
    from ok p obtain a where "requireAddress env ''ASSET_ADDRESS'' = Inr a" by auto
    moreover from ok p obtain b where "requireAddress env ''ATOKEN_ADDRESS'' = Inr b" by auto
    moreover from ok p obtain c where "requireAddress env ''AAVE_PROVIDER_ADDRESS'' = Inr c" by auto
    ultimately show ?thesis using fails n by (simp add: loadConfig_def)
  qed
qed

lemma loadConfig_Inr:
  assumes "loadConfig pu env = Inr cfg"
  shows "requireAddress env ''ASSET_ADDRESS'' = Inr (asset cfg)"
    and "requireAddress env ''ATOKEN_ADDRESS'' = Inr (aToken cfg)"
    and "requireAddress env ''AAVE_PROVIDER_ADDRESS'' = Inr (addressesProvider cfg)"
    and "requireAddress env ''VERIFIER_ADDRESS'' = Inr (verifier cfg)"
    and "assetDecimals cfg = Number (case env ''ASSET_DECIMALS'' of None \<Rightarrow> ''18'' | Some v \<Rightarrow> v)"
    and "getAmountEnv pu env ''MAX_USER_DEPOSIT'' (assetDecimals cfg) ''1000'' = Inr (maxUserDeposit cfg)"
    and "getAmountEnv pu env ''MAX_TOTAL_DEPOSIT'' (assetDecimals cfg) ''10000'' = Inr (maxTotalDeposit cfg)"
    and "rebalancer cfg = env ''REBALANCER_ADDRESS''"
    and "authorizeVaultOnVerifier cfg = (env ''AUTHORIZE_VAULT'' = Some ''true'')"
  using assms
  by (auto simp: loadConfig_def thenE_def Let_def split: sum.splits)

lemma loadConfig_fails_no_events:
  "loadConfig pu env = Inl e \<Longrightarrow> script pu w env = (Inl e, [])"
  by (simp add: script_def)

lemmas number_eval =
  Number_def trimString_def isStrWhiteSpaceChar_def startsWith_def unsignedDecimal_def
  nonDecimalInteger_def negateNumber_def isDigitOf_def digitValue_def digitsValue_def
  exponentPart_def scale10_def

lemmas parse_eval =
  parseUnits_def decimalValue_def scaleOf_def isDigitOf_def digitValue_def digitsValue_def
  scale10_def

lemmas config_eval =
  loadConfig_def requireAddress_def getAmountEnv_def startsWith_def sampleEnv_def

lemma Number_18: "Number ''18'' = Num 18"
  by (simp add: number_eval)

lemma Number_6: "Number ''6'' = Num 6"
  by (simp add: number_eval)

lemma Number_abc: "Number ''abc'' = NaN"
  by (simp add: number_eval)

lemma parseUnits_1000_18: "parseUnits ''1000'' (Num 18) = Inr 1000000000000000000000"
  by (simp add: parse_eval)

lemma parseUnits_10000_18: "parseUnits ''10000'' (Num 18) = Inr 10000000000000000000000"
  by (simp add: parse_eval)

lemma parseUnits_500_6: "parseUnits ''500'' (Num 6) = Inr 500000000"
  by (simp add: parse_eval)

lemma parseUnits_10000_6: "parseUnits ''10000'' (Num 6) = Inr 10000000000"
  by (simp add: parse_eval)

lemma loadConfig_sampleEnv:
  "loadConfig parseUnits sampleEnv =
     Inr \<lparr> asset = ''0x'' @ replicate 40 CHR ''a'', aToken = ''0x'' @ replicate 40 CHR ''b'',
           addressesProvider = ''0x'' @ replicate 40 CHR ''c'',
           verifier = ''0x'' @ replicate 40 CHR ''d'',
           maxUserDeposit = 1000000000000000000000,
           maxTotalDeposit = 10000000000000000000000,
           assetDecimals = Num 18, rebalancer = None, authorizeVaultOnVerifier = False \<rparr>"
  by (simp add: config_eval Number_18 parseUnits_1000_18 parseUnits_10000_18)

lemma loadConfig_scenarioEnv:
  "loadConfig parseUnits scenarioEnv =
     Inr \<lparr> asset = ''0x'' @ replicate 40 CHR ''a'', aToken = ''0x'' @ replicate 40 CHR ''b'',
           addressesProvider = ''0x'' @ replicate 40 CHR ''c'',
           verifier = ''0x'' @ replicate 40 CHR ''d'',
           maxUserDeposit = 500000000, maxTotalDeposit = 10000000000,
           assetDecimals = Num 6, rebalancer = None, authorizeVaultOnVerifier = False \<rparr>"
  by (simp add: config_eval scenarioEnv_def Number_6 parseUnits_500_6 parseUnits_10000_6)

lemma requireAddress_fails_loadConfig_fails:
  assumes "name \<in> set requiredAddresses" and "requireAddress env name = Inl e"
  shows "\<exists>e'. loadConfig pu env = Inl e'"
proof (cases "loadConfig pu env")
  case (Inl e')
  then show ?thesis by blast
next
  case (Inr cfg)
  from loadConfig_Inr(1-4) [OF Inr] assms show ?thesis
    by (auto simp: requiredAddresses_def)
qed

subsection \<open>Facts about the steps of the script\<close>

text \<open>
  Rules that follow a run step by step, whatever the libraries answer: a set of runs
  holds the run of a sequence of steps when it holds the run that ends at each failure
  and the run that goes on after each success.
\<close>

lemma andThen_perform_in:
  assumes "\<And>e. (Inl e, h @ [Call c (Inl e)]) \<in> S"
    and "\<And>x. g x (h @ [Call c (Inr (wrap x))]) \<in> S"
  shows "andThen (perform c wrap answer) g h \<in> S"
  using assms by (simp add: andThen_def perform_def split: sum.splits)

lemma perform_in:
  assumes "\<And>e. (Inl e, h @ [Call c (Inl e)]) \<in> S"
    and "\<And>x. (Inr x, h @ [Call c (Inr (wrap x))]) \<in> S"
  shows "perform c wrap answer h \<in> S"
  using assms by (cases "answer h") (simp_all add: perform_def)

lemma andThen_consoleLog_in:
  assumes "g () (h @ [Log line]) \<in> S"
  shows "andThen (consoleLog line) g h \<in> S"
  using assms by (simp add: andThen_def consoleLog_def)

lemma consoleLog_in:
  assumes "(Inr (), h @ [Log line]) \<in> S"
  shows "consoleLog line h \<in> S"
  using assms by (simp add: consoleLog_def)

lemma andThen_finish_in:
  assumes "g x h \<in> S"
  shows "andThen (finish x) g h \<in> S"
  using assms by (simp add: andThen_def finish_def)

lemma finish_in:
  assumes "(Inr x, h) \<in> S"
  shows "finish x h \<in> S"
  using assms by (simp add: finish_def)

lemma andThen_throw_in:
  assumes "(Inl e, h) \<in> S"
  shows "andThen (throw e) g h \<in> S"
  using assms by (simp add: andThen_def throw_def)

lemma andThen_andThen_in:
  assumes "andThen m (\<lambda>x. andThen (f x) g) h \<in> S"
  shows "andThen (andThen m f) g h \<in> S"
  using assms by (simp add: andThen_def split: sum.splits prod.splits)

lemma andThen_if_in:
  assumes "b \<Longrightarrow> andThen m g h \<in> S" and "\<not> b \<Longrightarrow> andThen n g h \<in> S"
  shows "andThen (if b then m else n) g h \<in> S"
  using assms by simp

lemma andThen_case_list_in:
  assumes "xs = [] \<Longrightarrow> andThen m g h \<in> S"
    and "\<And>y ys. xs = y # ys \<Longrightarrow> andThen (n y ys) g h \<in> S"
  shows "andThen (case xs of [] \<Rightarrow> m | y # ys \<Rightarrow> n y ys) g h \<in> S"
  using assms by (cases xs) simp_all

lemma andThen_case_option_in:
  assumes "x = None \<Longrightarrow> andThen m g h \<in> S"
    and "\<And>y. x = Some y \<Longrightarrow> andThen (n y) g h \<in> S"
  shows "andThen (case x of None \<Rightarrow> m | Some y \<Rightarrow> n y) g h \<in> S"
  using assms by (cases x) simp_all

lemmas step_intros =
  andThen_perform_in perform_in andThen_consoleLog_in consoleLog_in andThen_finish_in
  finish_in andThen_throw_in andThen_andThen_in andThen_if_in andThen_case_list_in
  andThen_case_option_in

lemma script_cases:
  assumes "script pu w env = (out, evs)"
  obtains (config) e where "loadConfig pu env = Inl e" and "out = Inl e" and "evs = []"
  | (run) params where "loadConfig pu env = Inr params" and "deployment w params [] = (out, evs)"
  using assms by (auto simp: script_def split: sum.splits)

lemmas run_eval =
  script_def deployment_def andThen_def perform_def consoleLog_def finish_def throw_def
  mockClient_def failingProxyClient_def writes_def

lemma andThen_perform_total_in:
  assumes "\<exists>x. answer h = Inr x"
    and "\<And>x. answer h = Inr x \<Longrightarrow> g x (h @ [Call c (Inr (wrap x))]) \<in> S"
  shows "andThen (perform c wrap answer) g h \<in> S"
  using assms by (auto simp: andThen_def perform_def)

lemma perform_total_in:
  assumes "\<exists>x. answer h = Inr x"
    and "\<And>x. answer h = Inr x \<Longrightarrow> (Inr x, h @ [Call c (Inr (wrap x))]) \<in> S"
  shows "perform c wrap answer h \<in> S"
  using assms by (auto simp: perform_def)

lemmas total_intros =
  andThen_perform_total_in perform_total_in andThen_consoleLog_in consoleLog_in
  andThen_finish_in finish_in andThen_throw_in andThen_andThen_in andThen_if_in
  andThen_case_list_in andThen_case_option_in

lemma deployment_completes:
  assumes "reliable w"
  shows "fst (deployment w params []) = Inr ()"
proof -
  define S :: "((error + unit) \<times> event list) set" where "S = {(out, evs). out = Inr ()}"
  have accounts: "\<exists>d ds. getWalletClients w h = Inr (d # ds)" for h
    using assms by (simp add: reliable_def)
  have wallets: "getWalletClients w h \<noteq> Inr []" for h
    using accounts [of h] by auto
  have "deployment w params [] \<in> S"
    using assms unfolding deployment_def reliable_def
    by (intro total_intros) (auto simp: S_def wallets)
  then show ?thesis
    by (auto simp: S_def)
qed

lemma deployment_plain_run:
  assumes reb: "rebalancer params = None"
    and auth: "\<not> authorizeVaultOnVerifier params"
    and run: "deployment w params [] = (Inr (), evs)"
  shows "\<exists>deployer others chain strategy implementation initData proxy vaultAbi.
        evs =
          [Call Connect (Inr Done),
           Call GetPublicClient (Inr Done),
           Call GetWalletClients (Inr (Accounts (deployer # others))),
           Log [Text ''Deploying with account:'', Text deployer],
           Call GetChainId (Inr (ChainId chain)),
           Log [Text ''Chain id:'', Count chain],
           Log [Text ''Deploying AaveV3Strategy...''],
           Call (DeployContract ''AaveV3Strategy''
                   [AddressArg (asset params), AddressArg (aToken params),
                    AddressArg (addressesProvider params)])
             (Inr (Deployed strategy)),
           Log [Text ''Deploying AttestifyVault implementation...''],
           Call (DeployContract ''AttestifyVault'' []) (Inr (Deployed implementation)),
           Call (EncodeFunctionData (abi implementation) ''initialize''
                   [AddressArg (asset params), AddressArg (address strategy),
                    AddressArg (verifier params), UintArg (maxUserDeposit params),
                    UintArg (maxTotalDeposit params)])
             (Inr (Encoded initData)),
           Log [Text ''Deploying ERC1967 proxy...''],
           Call (DeployContract ''TestProxy''
                   [AddressArg (address implementation), BytesArg initData])
             (Inr (Deployed proxy)),
           Call (GetContractAt ''AttestifyVault'' (address proxy))
             (Inr (Handle \<lparr>address = address proxy, abi = vaultAbi\<rparr>)),
           Log [Text ''Vault proxy deployed at:'', Text (address proxy)],
           Log [Text ''Linking strategy to vault...''],
           Call (Write (address strategy) ''setVault'' [AddressArg (address proxy)]) (Inr Done),
           Log [Text (CHR 0x0A # ''Deployment complete:'')],
           Log [Text ''- Strategy:'', Text (address strategy)],
           Log [Text ''- Vault Implementation:'', Text (address implementation)],
           Log [Text ''- Vault Proxy:'', Text (address proxy)],
           Log [Text (CHR 0x0A # ''Remember to:'')],
           Log [Text ''1. Fund the vault with reserves if needed.''],
           Log [Text ''2. Verify contracts on the block explorer.''],
           Log [Text ''3. Configure rebalancer/treasury roles and deposit limits as required.'']]
      \<and> deployedNames (calls evs) = [''AaveV3Strategy'', ''AttestifyVault'', ''TestProxy'']
      \<and> writes evs = [Write (address strategy) ''setVault'' [AddressArg (address proxy)]]
      \<and> writesOf ''setRebalancer'' evs = []
      \<and> writesOf ''authorizeCaller'' evs = []"
proof -
  define S :: "((error + unit) \<times> event list) set" where "S = {(out, evs). out = Inr () \<longrightarrow>
    (\<exists>deployer others chain strategy implementation initData proxy vaultAbi.
        evs =
          [Call Connect (Inr Done),
           Call GetPublicClient (Inr Done),
           Call GetWalletClients (Inr (Accounts (deployer # others))),
           Log [Text ''Deploying with account:'', Text deployer],
           Call GetChainId (Inr (ChainId chain)),
           Log [Text ''Chain id:'', Count chain],
           Log [Text ''Deploying AaveV3Strategy...''],
           Call (DeployContract ''AaveV3Strategy''
                   [AddressArg (asset params), AddressArg (aToken params),
                    AddressArg (addressesProvider params)])
             (Inr (Deployed strategy)),
           Log [Text ''Deploying AttestifyVault implementation...''],
           Call (DeployContract ''AttestifyVault'' []) (Inr (Deployed implementation)),
           Call (EncodeFunctionData (abi implementation) ''initialize''
                   [AddressArg (asset params), AddressArg (address strategy),
                    AddressArg (verifier params), UintArg (maxUserDeposit params),
                    UintArg (maxTotalDeposit params)])
             (Inr (Encoded initData)),
           Log [Text ''Deploying ERC1967 proxy...''],
           Call (DeployContract ''TestProxy''
                   [AddressArg (address implementation), BytesArg initData])
             (Inr (Deployed proxy)),
           Call (GetContractAt ''AttestifyVault'' (address proxy))
             (Inr (Handle \<lparr>address = address proxy, abi = vaultAbi\<rparr>)),
           Log [Text ''Vault proxy deployed at:'', Text (address proxy)],
           Log [Text ''Linking strategy to vault...''],
           Call (Write (address strategy) ''setVault'' [AddressArg (address proxy)]) (Inr Done),
           Log [Text (CHR 0x0A # ''Deployment complete:'')],
           Log [Text ''- Strategy:'', Text (address strategy)],
           Log [Text ''- Vault Implementation:'', Text (address implementation)],
           Log [Text ''- Vault Proxy:'', Text (address proxy)],
           Log [Text (CHR 0x0A # ''Remember to:'')],
           Log [Text ''1. Fund the vault with reserves if needed.''],
           Log [Text ''2. Verify contracts on the block explorer.''],
           Log [Text ''3. Configure rebalancer/treasury roles and deposit limits as required.'']]
      \<and> deployedNames (calls evs) = [''AaveV3Strategy'', ''AttestifyVault'', ''TestProxy'']
      \<and> writes evs = [Write (address strategy) ''setVault'' [AddressArg (address proxy)]]
      \<and> writesOf ''setRebalancer'' evs = []
      \<and> writesOf ''authorizeCaller'' evs = [])}"
  have "deployment w params [] \<in> S"
    using reb auth unfolding deployment_def
    by (intro step_intros) (simp_all add: S_def writes_def writesOf_def)
  with run show ?thesis
    by (simp add: S_def)
qed

subsection \<open>Claims about the configuration loader\<close>

text \<open>
  C1: every string that is not \<open>0x\<close> followed by 40 hex characters, a string of
  length 42 that starts with \<open>0x\<close> and has other characters that are not hex digits
  among them, makes \<open>requireAddress\<close>, and with it \<open>loadConfig\<close>, fail with
  \<open>InvalidAddressFormat\<close>. The code does not do so: the guard whose error reads
  "must be a 20-byte hex address" tests the prefix and the length only. At
  \<open>ASSET_ADDRESS\<close> set to \<open>0x\<close> and forty times \<open>z\<close>, which is not a hex address,
  \<open>requireAddress\<close> returns the value and \<open>loadConfig\<close> returns a configuration with
  it as the asset.
\<close>

theorem requireAddress_accepts_non_hex:
  "\<not> isHexAddress ''0xzzzzzzzzzzzzzzzzzzzzzzzzzzzzzzzzzzzzzzzz''
   \<and> requireAddress [''ASSET_ADDRESS'' \<mapsto> ''0xzzzzzzzzzzzzzzzzzzzzzzzzzzzzzzzzzzzzzzzz''] ''ASSET_ADDRESS''
       = Inr ''0xzzzzzzzzzzzzzzzzzzzzzzzzzzzzzzzzzzzzzzzz''
   \<and> map_sum id asset
         (loadConfig parseUnits
            (sampleEnv(''ASSET_ADDRESS'' \<mapsto> ''0xzzzzzzzzzzzzzzzzzzzzzzzzzzzzzzzzzzzzzzzz'')))
       = Inr ''0xzzzzzzzzzzzzzzzzzzzzzzzzzzzzzzzzzzzzzzzz''
   \<and> message (InvalidAddressFormat ''ASSET_ADDRESS'')
       = ''Env var ASSET_ADDRESS must be a 20-byte hex address''"
  by (simp add: isHexAddress_def isDigitOf_def digitValue_def config_eval Number_18
      parseUnits_1000_18 parseUnits_10000_18)

theorem requireAddress_accepts_non_hex_witness:
  "requireAddress [''ASSET_ADDRESS'' \<mapsto> ''0xzzzzzzzzzzzzzzzzzzzzzzzzzzzzzzzzzzzzzzzz''] ''ASSET_ADDRESS''
     \<noteq> Inl (InvalidAddressFormat ''ASSET_ADDRESS'')
   \<and> loadConfig parseUnits
         (sampleEnv(''ASSET_ADDRESS'' \<mapsto> ''0xzzzzzzzzzzzzzzzzzzzzzzzzzzzzzzzzzzzzzzzz''))
     \<noteq> Inl (InvalidAddressFormat ''ASSET_ADDRESS'')"
proof -
  note found = requireAddress_accepts_non_hex
  from found have "requireAddress
      [''ASSET_ADDRESS'' \<mapsto> ''0xzzzzzzzzzzzzzzzzzzzzzzzzzzzzzzzzzzzzzzzz''] ''ASSET_ADDRESS''
    = Inr ''0xzzzzzzzzzzzzzzzzzzzzzzzzzzzzzzzzzzzzzzzz''"
    by blast
  moreover from found have "map_sum id asset
      (loadConfig parseUnits
         (sampleEnv(''ASSET_ADDRESS'' \<mapsto> ''0xzzzzzzzzzzzzzzzzzzzzzzzzzzzzzzzzzzzzzzzz'')))
    = Inr ''0xzzzzzzzzzzzzzzzzzzzzzzzzzzzzzzzzzzzzzzzz''"
    by blast
  ultimately show ?thesis
    by auto
qed

text \<open>
  C2, as stated: when \<open>ASSET_DECIMALS\<close> is set to a string that fails numeric parsing,
  \<open>loadConfig\<close> produces a configuration whose \<open>assetDecimals\<close> is 18. It does not
  hold: \<open>??\<close> supplies \<open>"18"\<close> only for an unset variable, \<open>Number("abc")\<close> is \<open>NaN\<close>,
  and no \<open>parseUnits\<close> whatever makes \<open>loadConfig\<close> return 18 decimals there.
\<close>

theorem loadConfig_decimals_not_defaulted:
  "Number ''abc'' = NaN
   \<and> (\<forall>pu. \<not> (\<exists>cfg. loadConfig pu (sampleEnv(''ASSET_DECIMALS'' \<mapsto> ''abc'')) = Inr cfg
                      \<and> assetDecimals cfg = Num 18))"
proof -
  have "assetDecimals cfg = NaN"
    if "loadConfig pu (sampleEnv(''ASSET_DECIMALS'' \<mapsto> ''abc'')) = Inr cfg" for pu cfg
    using loadConfig_Inr(5) [OF that] by (simp add: Number_abc)
  then show ?thesis
    by (auto simp: Number_abc)
qed

text \<open>
  C2, amended: a configuration that \<open>loadConfig\<close> returns has \<open>assetDecimals\<close> 18 when
  \<open>ASSET_DECIMALS\<close> is unset, and \<open>Number(value)\<close> when it is set: \<open>NaN\<close>, not 18, for
  a value that fails numeric parsing.
\<close>

theorem loadConfig_decimals:
  assumes "loadConfig pu env = Inr cfg"
  shows "(env ''ASSET_DECIMALS'' = None \<longrightarrow> assetDecimals cfg = Num 18)
       \<and> (\<forall>v. env ''ASSET_DECIMALS'' = Some v \<longrightarrow> assetDecimals cfg = Number v)
       \<and> (\<forall>v. env ''ASSET_DECIMALS'' = Some v \<and> Number v = NaN \<longrightarrow> assetDecimals cfg = NaN)"
  using loadConfig_Inr(5) [OF assms] by (auto simp: Number_18)

theorem loadConfig_decimals_witness:
  "map_sum id assetDecimals (loadConfig parseUnits sampleEnv) = Inr (Num 18)
   \<and> map_sum id assetDecimals (loadConfig parseUnits scenarioEnv) = Inr (Num 6)
   \<and> map_sum id assetDecimals
        (loadConfig (\<lambda>raw decimals. Inr 0) (sampleEnv(''ASSET_DECIMALS'' \<mapsto> ''abc''))) = Inr NaN"
proof -
  obtain c1 where c1: "loadConfig parseUnits sampleEnv = Inr c1"
    by (simp add: loadConfig_sampleEnv)
  have unset: "sampleEnv ''ASSET_DECIMALS'' = None"
    by (simp add: sampleEnv_def)
  obtain c2 where c2: "loadConfig parseUnits scenarioEnv = Inr c2"
    by (simp add: loadConfig_scenarioEnv)
  have six: "scenarioEnv ''ASSET_DECIMALS'' = Some ''6''"
    by (simp add: scenarioEnv_def)
  obtain c3 where c3:
    "loadConfig (\<lambda>raw decimals. Inr 0) (sampleEnv(''ASSET_DECIMALS'' \<mapsto> ''abc'')) = Inr c3"
    by (simp add: config_eval)
  have abc: "(sampleEnv(''ASSET_DECIMALS'' \<mapsto> ''abc'')) ''ASSET_DECIMALS'' = Some ''abc''"
    by simp
  from loadConfig_decimals [OF c1] unset have "assetDecimals c1 = Num 18" by blast
  moreover from loadConfig_decimals [OF c2] six have "assetDecimals c2 = Num 6"
    by (simp add: Number_6)
  moreover from loadConfig_decimals [OF c3] abc have "assetDecimals c3 = NaN"
    by (simp add: Number_abc)
  ultimately show ?thesis
    using c1 c2 c3 by simp
qed

text \<open>
  C4, as stated: for every required address variable that is absent or empty,
  \<open>loadConfig\<close> fails with \<open>MissingConfiguration\<close> naming that variable. It does not
  hold when a variable read earlier is rejected first: here \<open>VERIFIER_ADDRESS\<close> is
  absent and the error is the \<open>InvalidAddressFormat\<close> of \<open>ASSET_ADDRESS\<close>.
\<close>

theorem loadConfig_reports_first_failure_only:
  "(sampleEnv(''ASSET_ADDRESS'' \<mapsto> ''0x123'', ''VERIFIER_ADDRESS'' := None)) ''VERIFIER_ADDRESS'' = None
   \<and> loadConfig parseUnits (sampleEnv(''ASSET_ADDRESS'' \<mapsto> ''0x123'', ''VERIFIER_ADDRESS'' := None))
       = Inl (InvalidAddressFormat ''ASSET_ADDRESS'')"
  by (simp add: config_eval)

text \<open>
  C4, amended: for a variable that is absent or empty, \<open>requireAddress\<close> fails with
  \<open>MissingConfiguration\<close> naming it; \<open>loadConfig\<close> fails with that error when the
  variable is a required address and the required addresses read before it (in the
  order \<open>ASSET_ADDRESS\<close>, \<open>ATOKEN_ADDRESS\<close>, \<open>AAVE_PROVIDER_ADDRESS\<close>,
  \<open>VERIFIER_ADDRESS\<close>) are well-formed; and whenever a required address is absent or
  empty, \<open>loadConfig\<close> fails and the script ends with its error before any chain
  operation or console line.
\<close>

theorem missing_address_stops_before_chain:
  assumes "env name = None \<or> env name = Some []"
  shows "requireAddress env name = Inl (MissingConfiguration name)
       \<and> (\<forall>pre post. requiredAddresses = pre @ name # post \<and> (\<forall>u\<in>set pre. wellFormed env u)
            \<longrightarrow> loadConfig pu env = Inl (MissingConfiguration name)
              \<and> script pu w env = (Inl (MissingConfiguration name), []))
       \<and> (name \<in> set requiredAddresses
            \<longrightarrow> (\<exists>e. loadConfig pu env = Inl e \<and> script pu w env = (Inl e, [])))"
proof -
  have missing: "requireAddress env name = Inl (MissingConfiguration name)"
    using assms by (rule requireAddress_absent)
  have first: "loadConfig pu env = Inl (MissingConfiguration name)
      \<and> script pu w env = (Inl (MissingConfiguration name), [])"
    if "requiredAddresses = pre @ name # post" and "\<forall>u\<in>set pre. wellFormed env u"
    for pre post
    using loadConfig_first_failure [OF that missing] by (simp add: loadConfig_fails_no_events)
  have any: "\<exists>e. loadConfig pu env = Inl e \<and> script pu w env = (Inl e, [])"
    if "name \<in> set requiredAddresses"
    using requireAddress_fails_loadConfig_fails [OF that missing, of pu]
    by (auto simp: loadConfig_fails_no_events)
  from missing first any show ?thesis by blast
qed

theorem missing_address_stops_before_chain_witness:
  "requireAddress (sampleEnv(''VERIFIER_ADDRESS'' := None)) ''VERIFIER_ADDRESS''
     = Inl (MissingConfiguration ''VERIFIER_ADDRESS'')
   \<and> script parseUnits mockClient (sampleEnv(''VERIFIER_ADDRESS'' := None))
     = (Inl (MissingConfiguration ''VERIFIER_ADDRESS''), [])
   \<and> script parseUnits mockClient (sampleEnv(''ASSET_ADDRESS'' \<mapsto> []))
     = (Inl (MissingConfiguration ''ASSET_ADDRESS''), [])"
proof -
  let ?env = "sampleEnv(''VERIFIER_ADDRESS'' := None)"
  have absent: "?env ''VERIFIER_ADDRESS'' = None \<or> ?env ''VERIFIER_ADDRESS'' = Some []"
    by simp
  have split: "requiredAddresses
      = [''ASSET_ADDRESS'', ''ATOKEN_ADDRESS'', ''AAVE_PROVIDER_ADDRESS''] @ ''VERIFIER_ADDRESS'' # []"
    by (simp add: requiredAddresses_def)
  have before:
    "\<forall>u\<in>set [''ASSET_ADDRESS'', ''ATOKEN_ADDRESS'', ''AAVE_PROVIDER_ADDRESS'']. wellFormed ?env u"
    by (simp add: wellFormed_def sampleEnv_def startsWith_def)
  let ?env' = "sampleEnv(''ASSET_ADDRESS'' \<mapsto> [])"
  have empty: "?env' ''ASSET_ADDRESS'' = None \<or> ?env' ''ASSET_ADDRESS'' = Some []"
    by simp
  have split': "requiredAddresses
      = [] @ ''ASSET_ADDRESS'' # [''ATOKEN_ADDRESS'', ''AAVE_PROVIDER_ADDRESS'', ''VERIFIER_ADDRESS'']"
    by (simp add: requiredAddresses_def)
  have before': "\<forall>u\<in>set []. wellFormed ?env' u"
    by simp
  from missing_address_stops_before_chain
         [of ?env "''VERIFIER_ADDRESS''" parseUnits mockClient, OF absent] split before
  have "requireAddress ?env ''VERIFIER_ADDRESS'' = Inl (MissingConfiguration ''VERIFIER_ADDRESS'')
      \<and> script parseUnits mockClient ?env = (Inl (MissingConfiguration ''VERIFIER_ADDRESS''), [])"
    by blast
  moreover
  from missing_address_stops_before_chain
         [of ?env' "''ASSET_ADDRESS''" parseUnits mockClient, OF empty] split' before'
  have "script parseUnits mockClient ?env' = (Inl (MissingConfiguration ''ASSET_ADDRESS''), [])"
    by blast
  ultimately show ?thesis by blast
qed

text \<open>
  C6: \<open>authorizeVaultOnVerifier\<close> is true exactly when \<open>AUTHORIZE_VAULT\<close> is the
  string \<open>"true"\<close>, character for character; for every other value, and when the
  variable is unset, it is false.
\<close>

theorem authorize_flag_exact_match:
  assumes "loadConfig pu env = Inr cfg"
  shows "authorizeVaultOnVerifier cfg = (env ''AUTHORIZE_VAULT'' = Some ''true'')"
  using assms by (rule loadConfig_Inr(9))

theorem authorize_flag_exact_match_witness:
  "map_sum id authorizeVaultOnVerifier
     (loadConfig parseUnits (sampleEnv(''AUTHORIZE_VAULT'' \<mapsto> ''true''))) = Inr True
   \<and> map_sum id authorizeVaultOnVerifier
     (loadConfig parseUnits (sampleEnv(''AUTHORIZE_VAULT'' \<mapsto> ''TRUE''))) = Inr False
   \<and> map_sum id authorizeVaultOnVerifier
     (loadConfig parseUnits (sampleEnv(''AUTHORIZE_VAULT'' \<mapsto> ''1''))) = Inr False
   \<and> map_sum id authorizeVaultOnVerifier (loadConfig parseUnits sampleEnv) = Inr False"
proof -
  have loads: "\<exists>cfg. loadConfig parseUnits (sampleEnv(''AUTHORIZE_VAULT'' \<mapsto> v)) = Inr cfg" for v
    by (simp add: config_eval Number_18 parseUnits_1000_18 parseUnits_10000_18)
  obtain c1 where c1: "loadConfig parseUnits (sampleEnv(''AUTHORIZE_VAULT'' \<mapsto> ''true'')) = Inr c1"
    using loads by blast
  obtain c2 where c2: "loadConfig parseUnits (sampleEnv(''AUTHORIZE_VAULT'' \<mapsto> ''TRUE'')) = Inr c2"
    using loads by blast
  obtain c3 where c3: "loadConfig parseUnits (sampleEnv(''AUTHORIZE_VAULT'' \<mapsto> ''1'')) = Inr c3"
    using loads by blast
  obtain c4 where c4: "loadConfig parseUnits sampleEnv = Inr c4"
    by (simp add: loadConfig_sampleEnv)
  have "authorizeVaultOnVerifier c1"
    using authorize_flag_exact_match [OF c1] by simp
  moreover have "\<not> authorizeVaultOnVerifier c2"
    using authorize_flag_exact_match [OF c2] by simp
  moreover have "\<not> authorizeVaultOnVerifier c3"
    using authorize_flag_exact_match [OF c3] by simp
  moreover have "\<not> authorizeVaultOnVerifier c4"
    using authorize_flag_exact_match [OF c4] by (simp add: sampleEnv_def)
  ultimately show ?thesis
    using c1 c2 c3 c4 by simp
qed

text \<open>
  C8: \<open>getAmountEnv\<close> on the value \<open>"1000"\<close> at 18 decimals is \<open>1000 * 10 ^ 18\<close>; on a
  value that is not a decimal numeral representable at the scale it fails with
  \<open>InvalidAmountFormat\<close>, and on one that is, it is the value times ten to the scale;
  when the variable is unset the fallback is parsed instead. The parsing is that of
  \<open>parseUnits\<close> as the spec describes it; the choice between the variable and the
  fallback is the script's and holds for any \<open>parseUnits\<close>.
\<close>

theorem getAmountEnv_fixed_point:
  "(env name = Some ''1000''
      \<longrightarrow> getAmountEnv parseUnits env name (Num 18) fallback = Inr (1000 * 10 ^ 18))
   \<and> (\<forall>raw. env name = Some raw \<and> \<not> representable raw decimals
      \<longrightarrow> getAmountEnv parseUnits env name decimals fallback = Inl (InvalidAmountFormat raw))
   \<and> (\<forall>raw q d. env name = Some raw \<and> representable raw decimals
         \<and> decimalValue raw = Some q \<and> scaleOf decimals = Some d
      \<longrightarrow> (\<exists>n. getAmountEnv parseUnits env name decimals fallback = Inr n
               \<and> of_int n = q * 10 ^ d))
   \<and> (env name = None
      \<longrightarrow> getAmountEnv pu env name decimals fallback = pu fallback decimals)"
proof -
  have a: "getAmountEnv parseUnits env name (Num 18) fallback = Inr (1000 * 10 ^ 18)"
    if "env name = Some ''1000''"
    using that by (simp add: getAmountEnv_def parseUnits_1000_18)
  have b: "getAmountEnv parseUnits env name decimals fallback = Inl (InvalidAmountFormat raw)"
    if "env name = Some raw" and "\<not> representable raw decimals" for raw
    using that
    by (auto simp: getAmountEnv_def parseUnits_def representable_def split: option.splits)
  have c: "\<exists>n. getAmountEnv parseUnits env name decimals fallback = Inr n \<and> of_int n = q * 10 ^ d"
    if "env name = Some raw" and "representable raw decimals"
      and "decimalValue raw = Some q" and "scaleOf decimals = Some d" for raw q d
    using that by (simp add: getAmountEnv_def parseUnits_def representable_def)
  have d: "getAmountEnv pu env name decimals fallback = pu fallback decimals"
    if "env name = None"
    using that by (simp add: getAmountEnv_def)
  from a b c d show ?thesis by blast
qed

theorem getAmountEnv_fixed_point_witness:
  "getAmountEnv parseUnits [''MAX_USER_DEPOSIT'' \<mapsto> ''1000''] ''MAX_USER_DEPOSIT'' (Num 18) ''1''
     = Inr 1000000000000000000000
   \<and> getAmountEnv parseUnits [''MAX_USER_DEPOSIT'' \<mapsto> ''abc''] ''MAX_USER_DEPOSIT'' (Num 18) ''1''
     = Inl (InvalidAmountFormat ''abc'')
   \<and> getAmountEnv parseUnits [''MAX_USER_DEPOSIT'' \<mapsto> ''0.5''] ''MAX_USER_DEPOSIT'' (Num 0) ''1''
     = Inl (InvalidAmountFormat ''0.5'')
   \<and> getAmountEnv parseUnits Map.empty ''MAX_USER_DEPOSIT'' (Num 18) ''1000''
     = Inr 1000000000000000000000"
proof -
  have abc: "\<not> representable ''abc'' (Num 18)"
    by (simp add: representable_def parse_eval)
  have "\<lfloor>1 / 2 :: rat\<rfloor> = 0"
    by (rule floor_unique) simp_all
  then have half: "\<not> representable ''0.5'' (Num 0)"
    by (simp add: representable_def parse_eval)
  from getAmountEnv_fixed_point
         [of "[''MAX_USER_DEPOSIT'' \<mapsto> ''1000'']" "''MAX_USER_DEPOSIT''" "''1''" "Num 18"]
  have "getAmountEnv parseUnits [''MAX_USER_DEPOSIT'' \<mapsto> ''1000''] ''MAX_USER_DEPOSIT'' (Num 18) ''1''
      = Inr 1000000000000000000000"
    by simp
  moreover
  from getAmountEnv_fixed_point
         [of "[''MAX_USER_DEPOSIT'' \<mapsto> ''abc'']" "''MAX_USER_DEPOSIT''" "''1''" "Num 18"] abc
  have "getAmountEnv parseUnits [''MAX_USER_DEPOSIT'' \<mapsto> ''abc''] ''MAX_USER_DEPOSIT'' (Num 18) ''1''
      = Inl (InvalidAmountFormat ''abc'')"
    by simp
  moreover
  from getAmountEnv_fixed_point
         [of "[''MAX_USER_DEPOSIT'' \<mapsto> ''0.5'']" "''MAX_USER_DEPOSIT''" "''1''" "Num 0"] half
  have "getAmountEnv parseUnits [''MAX_USER_DEPOSIT'' \<mapsto> ''0.5''] ''MAX_USER_DEPOSIT'' (Num 0) ''1''
      = Inl (InvalidAmountFormat ''0.5'')"
    by simp
  moreover
  from getAmountEnv_fixed_point
         [of Map.empty "''MAX_USER_DEPOSIT''" "''1000''" "Num 18" parseUnits]
  have "getAmountEnv parseUnits Map.empty ''MAX_USER_DEPOSIT'' (Num 18) ''1000''
      = Inr 1000000000000000000000"
    by (simp add: parseUnits_1000_18)
  ultimately show ?thesis by blast
qed

subsection \<open>Claims about the deployment sequence\<close>

lemma deployment_proxy_failure:
  assumes run: "deployment w params [] = (out, evs)"
    and failed: "Call (DeployContract ''TestProxy'' args) (Inl e) \<in> set evs"
  shows "out = Inl e
       \<and> (\<exists>before. evs = before @ [Call (DeployContract ''TestProxy'' args) (Inl e)])
       \<and> writes evs = []
       \<and> filter isGetContractAt (calls evs) = []"
proof -
  define S :: "((error + unit) \<times> event list) set" where "S = {(out, evs).
    Call (DeployContract ''TestProxy'' args) (Inl e) \<in> set evs \<longrightarrow>
      out = Inl e
      \<and> (\<exists>before. evs = before @ [Call (DeployContract ''TestProxy'' args) (Inl e)])
      \<and> writes evs = []
      \<and> filter isGetContractAt (calls evs) = []}"
  have "deployment w params [] \<in> S"
    unfolding deployment_def
    by (intro step_intros) (simp_all add: S_def writes_def)
  with run failed show ?thesis
    by (simp add: S_def)
qed

text \<open>
  C5: if the deployment of the proxy fails, its error is the outcome of the script and
  the failed call is the last event of the run: no write transaction is sent
  (\<open>setVault\<close>, \<open>setRebalancer\<close>, \<open>authorizeCaller\<close>) and no contract handle is
  obtained, before or after it.
\<close>

theorem proxy_failure_aborts:
  assumes "script pu w env = (out, evs)"
    and "Call (DeployContract ''TestProxy'' args) (Inl e) \<in> set evs"
  shows "out = Inl e
       \<and> (\<exists>before. evs = before @ [Call (DeployContract ''TestProxy'' args) (Inl e)])
       \<and> writes evs = []
       \<and> filter isGetContractAt (calls evs) = []"
  using assms(1)
proof (cases rule: script_cases)
  case (config e')
  with assms(2) show ?thesis by simp
next
  case (run params)
  from deployment_proxy_failure [OF run(2) assms(2)] show ?thesis .
qed

theorem proxy_failure_aborts_witness:
  "fst (script parseUnits failingProxyClient scenarioEnv) = Inl (ChainOperationFailure ''rpc error'')
   \<and> last (snd (script parseUnits failingProxyClient scenarioEnv))
       = Call (DeployContract ''TestProxy'' [AddressArg ''0xAttestifyVault'', BytesArg ''0xinit''])
           (Inl (ChainOperationFailure ''rpc error''))
   \<and> writes (snd (script parseUnits failingProxyClient scenarioEnv)) = []
   \<and> filter isGetContractAt (calls (snd (script parseUnits failingProxyClient scenarioEnv))) = []"
proof -
  obtain out evs where run: "script parseUnits failingProxyClient scenarioEnv = (out, evs)"
    by (cases "script parseUnits failingProxyClient scenarioEnv")
  have failed:
    "Call (DeployContract ''TestProxy'' [AddressArg ''0xAttestifyVault'', BytesArg ''0xinit''])
       (Inl (ChainOperationFailure ''rpc error'')) \<in> set evs"
    using run by (auto simp: run_eval loadConfig_scenarioEnv)
  from proxy_failure_aborts [OF run failed] run show ?thesis
    by auto
qed

lemma deployment_setRebalancer:
  assumes run: "deployment w params [] = (out, evs)"
  shows "(writesOf ''setRebalancer'' evs \<noteq> [] \<longrightarrow>
            (\<exists>r d p. rebalancer params = Some r \<and> r \<noteq> [] \<and> deployerOf evs = Some d \<and> r \<noteq> d
              \<and> deployedAs ''TestProxy'' evs = Some p
              \<and> writesOf ''setRebalancer'' evs = [Write (address p) ''setRebalancer'' [AddressArg r]]))
       \<and> (\<forall>r d. out = Inr () \<and> rebalancer params = Some r \<and> r \<noteq> [] \<and> deployerOf evs = Some d
               \<and> r \<noteq> d
            \<longrightarrow> writesOf ''setRebalancer'' evs \<noteq> [])"
proof -
  define S :: "((error + unit) \<times> event list) set" where "S = {(out, evs).
    (writesOf ''setRebalancer'' evs \<noteq> [] \<longrightarrow>
        (\<exists>r d p. rebalancer params = Some r \<and> r \<noteq> [] \<and> deployerOf evs = Some d \<and> r \<noteq> d
          \<and> deployedAs ''TestProxy'' evs = Some p
          \<and> writesOf ''setRebalancer'' evs = [Write (address p) ''setRebalancer'' [AddressArg r]]))
    \<and> (\<forall>r d. out = Inr () \<and> rebalancer params = Some r \<and> r \<noteq> [] \<and> deployerOf evs = Some d
           \<and> r \<noteq> d
        \<longrightarrow> writesOf ''setRebalancer'' evs \<noteq> [])}"
  have "deployment w params [] \<in> S"
    unfolding deployment_def
    by (intro step_intros) (simp_all add: S_def writesOf_def)
  with run show ?thesis
    by (simp add: S_def)
qed

text \<open>
  C7: a \<open>setRebalancer\<close> write is sent only when \<open>REBALANCER_ADDRESS\<close> is set, not
  empty and different from the deployer's address, and then exactly one is sent, to the
  vault at the proxy's address, with that value; when the configured value equals the
  deployer's address none is sent; and a run that completes with a configured
  rebalancer different from the deployer has sent it.
\<close>

theorem rebalancer_only_when_distinct:
  assumes "script pu w env = (out, evs)"
  shows "(writesOf ''setRebalancer'' evs \<noteq> [] \<longrightarrow>
            (\<exists>r d p. env ''REBALANCER_ADDRESS'' = Some r \<and> r \<noteq> [] \<and> deployerOf evs = Some d
              \<and> r \<noteq> d \<and> deployedAs ''TestProxy'' evs = Some p
              \<and> writesOf ''setRebalancer'' evs = [Write (address p) ''setRebalancer'' [AddressArg r]]))
       \<and> (\<forall>r. env ''REBALANCER_ADDRESS'' = Some r \<and> deployerOf evs = Some r
            \<longrightarrow> writesOf ''setRebalancer'' evs = [])
       \<and> (\<forall>r d. out = Inr () \<and> env ''REBALANCER_ADDRESS'' = Some r \<and> r \<noteq> []
              \<and> deployerOf evs = Some d \<and> r \<noteq> d
            \<longrightarrow> writesOf ''setRebalancer'' evs \<noteq> [])"
  using assms
proof (cases rule: script_cases)
  case (config e)
  then show ?thesis by (simp add: writesOf_def)
next
  case (run params)
  have reb: "rebalancer params = env ''REBALANCER_ADDRESS''"
    using run(1) by (rule loadConfig_Inr(8))
  from deployment_setRebalancer [OF run(2)] reb
  have only: "writesOf ''setRebalancer'' evs \<noteq> [] \<longrightarrow>
      (\<exists>r d p. env ''REBALANCER_ADDRESS'' = Some r \<and> r \<noteq> [] \<and> deployerOf evs = Some d
        \<and> r \<noteq> d \<and> deployedAs ''TestProxy'' evs = Some p
        \<and> writesOf ''setRebalancer'' evs = [Write (address p) ''setRebalancer'' [AddressArg r]])"
    and sent: "\<forall>r d. out = Inr () \<and> env ''REBALANCER_ADDRESS'' = Some r \<and> r \<noteq> []
        \<and> deployerOf evs = Some d \<and> r \<noteq> d
      \<longrightarrow> writesOf ''setRebalancer'' evs \<noteq> []"
    by simp_all
  have skip: "writesOf ''setRebalancer'' evs = []"
    if "env ''REBALANCER_ADDRESS'' = Some r" and "deployerOf evs = Some r" for r
    using only that by fastforce
  from only skip sent show ?thesis by blast
qed

theorem rebalancer_only_when_distinct_witness:
  "writesOf ''setRebalancer''
     (snd (script parseUnits mockClient (sampleEnv(''REBALANCER_ADDRESS'' \<mapsto> ''0xdeployer'')))) = []
   \<and> writesOf ''setRebalancer''
     (snd (script parseUnits mockClient (sampleEnv(''REBALANCER_ADDRESS'' \<mapsto> ''0xother''))))
     = [Write ''0xTestProxy'' ''setRebalancer'' [AddressArg ''0xother'']]"
proof -
  have loads: "\<exists>cfg. loadConfig parseUnits (sampleEnv(''REBALANCER_ADDRESS'' \<mapsto> r)) = Inr cfg
      \<and> rebalancer cfg = Some r \<and> \<not> authorizeVaultOnVerifier cfg" for r
    by (simp add: config_eval Number_18 parseUnits_1000_18 parseUnits_10000_18)
  obtain evs1 where run1:
    "script parseUnits mockClient (sampleEnv(''REBALANCER_ADDRESS'' \<mapsto> ''0xdeployer'')) = (Inr (), evs1)"
    and d1: "deployerOf evs1 = Some ''0xdeployer''"
    using loads [of "''0xdeployer''"] by (auto simp: run_eval)
  obtain evs2 where run2:
    "script parseUnits mockClient (sampleEnv(''REBALANCER_ADDRESS'' \<mapsto> ''0xother'')) = (Inr (), evs2)"
    and d2: "deployerOf evs2 = Some ''0xdeployer''"
    and p2: "deployedAs ''TestProxy'' evs2 = Some \<lparr>address = ''0xTestProxy'', abi = ''TestProxy''\<rparr>"
    using loads [of "''0xother''"] by (auto simp: run_eval)
  have e1: "(sampleEnv(''REBALANCER_ADDRESS'' \<mapsto> ''0xdeployer'')) ''REBALANCER_ADDRESS'' = Some ''0xdeployer''"
    and e2: "(sampleEnv(''REBALANCER_ADDRESS'' \<mapsto> ''0xother'')) ''REBALANCER_ADDRESS'' = Some ''0xother''"
    by simp_all
  from rebalancer_only_when_distinct [OF run1] d1 e1
  have "writesOf ''setRebalancer'' evs1 = []"
    by blast
  moreover
  from rebalancer_only_when_distinct [OF run2] d2 e2
  have "writesOf ''setRebalancer'' evs2 \<noteq> []"
    by simp
  with rebalancer_only_when_distinct [OF run2] p2 e2
  have "writesOf ''setRebalancer'' evs2 = [Write ''0xTestProxy'' ''setRebalancer'' [AddressArg ''0xother'']]"
    by fastforce
  ultimately show ?thesis
    using run1 run2 by simp
qed

lemma deployment_initData:
  assumes run: "deployment w params [] = (out, evs)"
  shows "(filter isEncodeFunctionData (calls evs) \<noteq> [] \<longrightarrow>
            (\<exists>s v. deployedAs ''AaveV3Strategy'' evs = Some s
              \<and> deployedAs ''AttestifyVault'' evs = Some v
              \<and> filter isEncodeFunctionData (calls evs) =
                  [EncodeFunctionData (abi v) ''initialize''
                     [AddressArg (asset params), AddressArg (address s),
                      AddressArg (verifier params), UintArg (maxUserDeposit params),
                      UintArg (maxTotalDeposit params)]]))
       \<and> (filter (isDeployOf ''TestProxy'') (calls evs) \<noteq> [] \<longrightarrow>
            (\<exists>v d. deployedAs ''AttestifyVault'' evs = Some v \<and> encodedData evs = Some d
              \<and> filter (isDeployOf ''TestProxy'') (calls evs) =
                  [DeployContract ''TestProxy'' [AddressArg (address v), BytesArg d]]))
       \<and> (out = Inr () \<longrightarrow> filter isEncodeFunctionData (calls evs) \<noteq> []
              \<and> filter (isDeployOf ''TestProxy'') (calls evs) \<noteq> [])"
proof -
  define S :: "((error + unit) \<times> event list) set" where "S = {(out, evs).
    (filter isEncodeFunctionData (calls evs) \<noteq> [] \<longrightarrow>
        (\<exists>s v. deployedAs ''AaveV3Strategy'' evs = Some s
          \<and> deployedAs ''AttestifyVault'' evs = Some v
          \<and> filter isEncodeFunctionData (calls evs) =
              [EncodeFunctionData (abi v) ''initialize''
                 [AddressArg (asset params), AddressArg (address s),
                  AddressArg (verifier params), UintArg (maxUserDeposit params),
                  UintArg (maxTotalDeposit params)]]))
    \<and> (filter (isDeployOf ''TestProxy'') (calls evs) \<noteq> [] \<longrightarrow>
        (\<exists>v d. deployedAs ''AttestifyVault'' evs = Some v \<and> encodedData evs = Some d
          \<and> filter (isDeployOf ''TestProxy'') (calls evs) =
              [DeployContract ''TestProxy'' [AddressArg (address v), BytesArg d]]))
    \<and> (out = Inr () \<longrightarrow> filter isEncodeFunctionData (calls evs) \<noteq> []
          \<and> filter (isDeployOf ''TestProxy'') (calls evs) \<noteq> [])}"
  have "deployment w params [] \<in> S"
    unfolding deployment_def
    by (intro step_intros) (simp_all add: S_def)
  with run show ?thesis
    by (simp add: S_def)
qed

text \<open>
  C9: the only \<open>encodeFunctionData\<close> call of a run encodes \<open>initialize\<close> against the
  interface of the deployed vault implementation with the arguments \<open>asset\<close>, the
  address the strategy deployment answered with, \<open>verifier\<close>, \<open>maxUserDeposit\<close> and
  \<open>maxTotalDeposit\<close>, in that order; the only deployment of the proxy has the
  constructor arguments (address of the implementation, encoded data); and a run that
  completes has made both calls.
\<close>

theorem initializer_and_proxy_arguments:
  assumes "script pu w env = (out, evs)" and "loadConfig pu env = Inr params"
  shows "(filter isEncodeFunctionData (calls evs) \<noteq> [] \<longrightarrow>
            (\<exists>s v. deployedAs ''AaveV3Strategy'' evs = Some s
              \<and> deployedAs ''AttestifyVault'' evs = Some v
              \<and> filter isEncodeFunctionData (calls evs) =
                  [EncodeFunctionData (abi v) ''initialize''
                     [AddressArg (asset params), AddressArg (address s),
                      AddressArg (verifier params), UintArg (maxUserDeposit params),
                      UintArg (maxTotalDeposit params)]]))
       \<and> (filter (isDeployOf ''TestProxy'') (calls evs) \<noteq> [] \<longrightarrow>
            (\<exists>v d. deployedAs ''AttestifyVault'' evs = Some v \<and> encodedData evs = Some d
              \<and> filter (isDeployOf ''TestProxy'') (calls evs) =
                  [DeployContract ''TestProxy'' [AddressArg (address v), BytesArg d]]))
       \<and> (out = Inr () \<longrightarrow> filter isEncodeFunctionData (calls evs) \<noteq> []
              \<and> filter (isDeployOf ''TestProxy'') (calls evs) \<noteq> [])"
proof -
  from assms have "deployment w params [] = (out, evs)"
    by (simp add: script_def)
  then show ?thesis
    by (rule deployment_initData)
qed

theorem initializer_and_proxy_arguments_witness:
  "filter isEncodeFunctionData (calls (snd (script parseUnits mockClient scenarioEnv)))
     = [EncodeFunctionData ''AttestifyVault'' ''initialize''
          [AddressArg (''0x'' @ replicate 40 CHR ''a''), AddressArg ''0xAaveV3Strategy'',
           AddressArg (''0x'' @ replicate 40 CHR ''d''), UintArg 500000000, UintArg 10000000000]]
   \<and> filter (isDeployOf ''TestProxy'') (calls (snd (script parseUnits mockClient scenarioEnv)))
     = [DeployContract ''TestProxy'' [AddressArg ''0xAttestifyVault'', BytesArg ''0xinit'']]"
proof -
  obtain evs where run: "script parseUnits mockClient scenarioEnv = (Inr (), evs)"
    and s: "deployedAs ''AaveV3Strategy'' evs = Some \<lparr>address = ''0xAaveV3Strategy'', abi = ''AaveV3Strategy''\<rparr>"
    and v: "deployedAs ''AttestifyVault'' evs = Some \<lparr>address = ''0xAttestifyVault'', abi = ''AttestifyVault''\<rparr>"
    and d: "encodedData evs = Some ''0xinit''"
    by (auto simp: run_eval loadConfig_scenarioEnv)
  from initializer_and_proxy_arguments [OF run loadConfig_scenarioEnv] s v d run
  show ?thesis
    by auto
qed

text \<open>
  C3: with valid addresses for the asset, the aToken, the provider and the verifier,
  \<open>MAX_USER_DEPOSIT=500\<close> and \<open>ASSET_DECIMALS=6\<close>, no rebalancer and \<open>AUTHORIZE_VAULT\<close>
  unset, on a client whose operations succeed (and with both deposit limits parsed by
  \<open>parseUnits\<close>, the user limit being \<open>500\<close> at scale 6), the script completes and its
  run is exactly the following sequence of events: the strategy is deployed with
  \<open>(asset, aToken, addressesProvider)\<close>, then the vault implementation, then the
  proxy; \<open>setVault\<close> with the proxy's address is the only write transaction, so there
  is no \<open>setRebalancer\<close> and no \<open>authorizeCaller\<close>; and the final report names the
  three addresses of the strategy, the implementation and the proxy.
\<close>

theorem scenario_deployment:
  assumes asset: "env ''ASSET_ADDRESS'' = Some assetAddr" "isHexAddress assetAddr"
    and aToken: "env ''ATOKEN_ADDRESS'' = Some aTokenAddr" "isHexAddress aTokenAddr"
    and provider: "env ''AAVE_PROVIDER_ADDRESS'' = Some providerAddr" "isHexAddress providerAddr"
    and verifier: "env ''VERIFIER_ADDRESS'' = Some verifierAddr" "isHexAddress verifierAddr"
    and user: "env ''MAX_USER_DEPOSIT'' = Some ''500''"
    and decimals: "env ''ASSET_DECIMALS'' = Some ''6''"
    and norebalancer: "env ''REBALANCER_ADDRESS'' = None"
    and noauthorize: "env ''AUTHORIZE_VAULT'' = None"
    and userLimit: "pu ''500'' (Num 6) = Inr userLimit"
    and totalLimit: "getAmountEnv pu env ''MAX_TOTAL_DEPOSIT'' (Num 6) ''10000'' = Inr totalLimit"
    and client: "reliable w"
  shows "\<exists>deployer others chain strategy implementation initData proxy vaultAbi.
          script pu w env =
            (Inr (),
             [Call Connect (Inr Done),
              Call GetPublicClient (Inr Done),
              Call GetWalletClients (Inr (Accounts (deployer # others))),
              Log [Text ''Deploying with account:'', Text deployer],
              Call GetChainId (Inr (ChainId chain)),
              Log [Text ''Chain id:'', Count chain],
              Log [Text ''Deploying AaveV3Strategy...''],
              Call (DeployContract ''AaveV3Strategy''
                      [AddressArg assetAddr, AddressArg aTokenAddr, AddressArg providerAddr])
                (Inr (Deployed strategy)),
              Log [Text ''Deploying AttestifyVault implementation...''],
              Call (DeployContract ''AttestifyVault'' []) (Inr (Deployed implementation)),
              Call (EncodeFunctionData (abi implementation) ''initialize''
                      [AddressArg assetAddr, AddressArg (address strategy),
                       AddressArg verifierAddr, UintArg userLimit, UintArg totalLimit])
                (Inr (Encoded initData)),
              Log [Text ''Deploying ERC1967 proxy...''],
              Call (DeployContract ''TestProxy''
                      [AddressArg (address implementation), BytesArg initData])
                (Inr (Deployed proxy)),
              Call (GetContractAt ''AttestifyVault'' (address proxy))
                (Inr (Handle \<lparr>address = address proxy, abi = vaultAbi\<rparr>)),
              Log [Text ''Vault proxy deployed at:'', Text (address proxy)],
              Log [Text ''Linking strategy to vault...''],
              Call (Write (address strategy) ''setVault'' [AddressArg (address proxy)]) (Inr Done),
              Log [Text (CHR 0x0A # ''Deployment complete:'')],
              Log [Text ''- Strategy:'', Text (address strategy)],
              Log [Text ''- Vault Implementation:'', Text (address implementation)],
              Log [Text ''- Vault Proxy:'', Text (address proxy)],
              Log [Text (CHR 0x0A # ''Remember to:'')],
              Log [Text ''1. Fund the vault with reserves if needed.''],
              Log [Text ''2. Verify contracts on the block explorer.''],
              Log [Text ''3. Configure rebalancer/treasury roles and deposit limits as required.'']])
        \<and> deployedNames (calls (snd (script pu w env)))
            = [''AaveV3Strategy'', ''AttestifyVault'', ''TestProxy'']
        \<and> writes (snd (script pu w env))
            = [Write (address strategy) ''setVault'' [AddressArg (address proxy)]]
        \<and> writesOf ''setRebalancer'' (snd (script pu w env)) = []
        \<and> writesOf ''authorizeCaller'' (snd (script pu w env)) = []"
proof -
  let ?params = "\<lparr> asset = assetAddr, aToken = aTokenAddr, addressesProvider = providerAddr,
    verifier = verifierAddr, maxUserDeposit = userLimit, maxTotalDeposit = totalLimit,
    assetDecimals = Num 6, rebalancer = None, authorizeVaultOnVerifier = False \<rparr>"
  have accepted: "requireAddress env ''ASSET_ADDRESS'' = Inr assetAddr"
    "requireAddress env ''ATOKEN_ADDRESS'' = Inr aTokenAddr"
    "requireAddress env ''AAVE_PROVIDER_ADDRESS'' = Inr providerAddr"
    "requireAddress env ''VERIFIER_ADDRESS'' = Inr verifierAddr"
    using asset aToken provider verifier
    by (auto simp: requireAddress_Inr_iff isHexAddress_def)
  have cfg: "loadConfig pu env = Inr ?params"
    using accepted user decimals norebalancer noauthorize userLimit totalLimit
    by (simp add: loadConfig_def Number_6 getAmountEnv_def)
  obtain out evs where run: "deployment w ?params [] = (out, evs)"
    by (cases "deployment w ?params []")
  with deployment_completes [OF client, of ?params] have out: "out = Inr ()"
    by simp
  from run out cfg have whole: "script pu w env = (Inr (), evs)"
    by (simp add: script_def)
  from run out have "deployment w ?params [] = (Inr (), evs)"
    by simp
  from deployment_plain_run [OF _ _ this] whole show ?thesis
    by simp
qed

theorem scenario_deployment_witness:
  "script parseUnits mockClient scenarioEnv =
     (Inr (),
      [Call Connect (Inr Done),
       Call GetPublicClient (Inr Done),
       Call GetWalletClients (Inr (Accounts [''0xdeployer''])),
       Log [Text ''Deploying with account:'', Text ''0xdeployer''],
       Call GetChainId (Inr (ChainId 31337)),
       Log [Text ''Chain id:'', Count 31337],
       Log [Text ''Deploying AaveV3Strategy...''],
       Call (DeployContract ''AaveV3Strategy''
               [AddressArg (''0x'' @ replicate 40 CHR ''a''),
                AddressArg (''0x'' @ replicate 40 CHR ''b''),
                AddressArg (''0x'' @ replicate 40 CHR ''c'')])
         (Inr (Deployed \<lparr>address = ''0xAaveV3Strategy'', abi = ''AaveV3Strategy''\<rparr>)),
       Log [Text ''Deploying AttestifyVault implementation...''],
       Call (DeployContract ''AttestifyVault'' [])
         (Inr (Deployed \<lparr>address = ''0xAttestifyVault'', abi = ''AttestifyVault''\<rparr>)),
       Call (EncodeFunctionData ''AttestifyVault'' ''initialize''
               [AddressArg (''0x'' @ replicate 40 CHR ''a''),
                AddressArg ''0xAaveV3Strategy'',
                AddressArg (''0x'' @ replicate 40 CHR ''d''),
                UintArg 500000000, UintArg 10000000000])
         (Inr (Encoded ''0xinit'')),
       Log [Text ''Deploying ERC1967 proxy...''],
       Call (DeployContract ''TestProxy'' [AddressArg ''0xAttestifyVault'', BytesArg ''0xinit''])
         (Inr (Deployed \<lparr>address = ''0xTestProxy'', abi = ''TestProxy''\<rparr>)),
       Call (GetContractAt ''AttestifyVault'' ''0xTestProxy'')
         (Inr (Handle \<lparr>address = ''0xTestProxy'', abi = ''AttestifyVault''\<rparr>)),
       Log [Text ''Vault proxy deployed at:'', Text ''0xTestProxy''],
       Log [Text ''Linking strategy to vault...''],
       Call (Write ''0xAaveV3Strategy'' ''setVault'' [AddressArg ''0xTestProxy'']) (Inr Done),
       Log [Text (CHR 0x0A # ''Deployment complete:'')],
       Log [Text ''- Strategy:'', Text ''0xAaveV3Strategy''],
       Log [Text ''- Vault Implementation:'', Text ''0xAttestifyVault''],
       Log [Text ''- Vault Proxy:'', Text ''0xTestProxy''],
       Log [Text (CHR 0x0A # ''Remember to:'')],
       Log [Text ''1. Fund the vault with reserves if needed.''],
       Log [Text ''2. Verify contracts on the block explorer.''],
       Log [Text ''3. Configure rebalancer/treasury roles and deposit limits as required.'']])
   \<and> writes (snd (script parseUnits mockClient scenarioEnv))
       = [Write ''0xAaveV3Strategy'' ''setVault'' [AddressArg ''0xTestProxy'']]
   \<and> deployedNames (calls (snd (script parseUnits mockClient scenarioEnv)))
       = [''AaveV3Strategy'', ''AttestifyVault'', ''TestProxy'']"
proof -
  have hex: "isHexAddress (''0x'' @ replicate 40 CHR ''a'')"
    "isHexAddress (''0x'' @ replicate 40 CHR ''b'')"
    "isHexAddress (''0x'' @ replicate 40 CHR ''c'')"
    "isHexAddress (''0x'' @ replicate 40 CHR ''d'')"
    by (simp_all add: isHexAddress_def startsWith_def list_all_iff isDigitOf_def digitValue_def)
  have env: "scenarioEnv ''ASSET_ADDRESS'' = Some (''0x'' @ replicate 40 CHR ''a'')"
    "scenarioEnv ''ATOKEN_ADDRESS'' = Some (''0x'' @ replicate 40 CHR ''b'')"
    "scenarioEnv ''AAVE_PROVIDER_ADDRESS'' = Some (''0x'' @ replicate 40 CHR ''c'')"
    "scenarioEnv ''VERIFIER_ADDRESS'' = Some (''0x'' @ replicate 40 CHR ''d'')"
    "scenarioEnv ''MAX_USER_DEPOSIT'' = Some ''500''"
    "scenarioEnv ''ASSET_DECIMALS'' = Some ''6''"
    "scenarioEnv ''REBALANCER_ADDRESS'' = None"
    "scenarioEnv ''AUTHORIZE_VAULT'' = None"
    by (simp_all add: scenarioEnv_def sampleEnv_def)
  have total: "getAmountEnv parseUnits scenarioEnv ''MAX_TOTAL_DEPOSIT'' (Num 6) ''10000''
      = Inr 10000000000"
    by (simp add: getAmountEnv_def scenarioEnv_def sampleEnv_def parseUnits_10000_6)
  have client: "reliable mockClient"
    by (simp add: reliable_def mockClient_def)
  from scenario_deployment
         [OF env(1) hex(1) env(2) hex(2) env(3) hex(3) env(4) hex(4) env(5-8)
             parseUnits_500_6 total client]
  obtain deployer others chain strategy implementation initData proxy vaultAbi where
    trace: "script parseUnits mockClient scenarioEnv =
      (Inr (),
       [Call Connect (Inr Done),
        Call GetPublicClient (Inr Done),
        Call GetWalletClients (Inr (Accounts (deployer # others))),
        Log [Text ''Deploying with account:'', Text deployer],
        Call GetChainId (Inr (ChainId chain)),
        Log [Text ''Chain id:'', Count chain],
        Log [Text ''Deploying AaveV3Strategy...''],
        Call (DeployContract ''AaveV3Strategy''
                [AddressArg (''0x'' @ replicate 40 CHR ''a''),
                 AddressArg (''0x'' @ replicate 40 CHR ''b''),
                 AddressArg (''0x'' @ replicate 40 CHR ''c'')])
          (Inr (Deployed strategy)),
        Log [Text ''Deploying AttestifyVault implementation...''],
        Call (DeployContract ''AttestifyVault'' []) (Inr (Deployed implementation)),
        Call (EncodeFunctionData (abi implementation) ''initialize''
                [AddressArg (''0x'' @ replicate 40 CHR ''a''), AddressArg (address strategy),
                 AddressArg (''0x'' @ replicate 40 CHR ''d''), UintArg 500000000,
                 UintArg 10000000000])
          (Inr (Encoded initData)),
        Log [Text ''Deploying ERC1967 proxy...''],
        Call (DeployContract ''TestProxy''
                [AddressArg (address implementation), BytesArg initData])
          (Inr (Deployed proxy)),
        Call (GetContractAt ''AttestifyVault'' (address proxy))
          (Inr (Handle \<lparr>address = address proxy, abi = vaultAbi\<rparr>)),
        Log [Text ''Vault proxy deployed at:'', Text (address proxy)],
        Log [Text ''Linking strategy to vault...''],
        Call (Write (address strategy) ''setVault'' [AddressArg (address proxy)]) (Inr Done),
        Log [Text (CHR 0x0A # ''Deployment complete:'')],
        Log [Text ''- Strategy:'', Text (address strategy)],
        Log [Text ''- Vault Implementation:'', Text (address implementation)],
        Log [Text ''- Vault Proxy:'', Text (address proxy)],
        Log [Text (CHR 0x0A # ''Remember to:'')],
        Log [Text ''1. Fund the vault with reserves if needed.''],
        Log [Text ''2. Verify contracts on the block explorer.''],
        Log [Text ''3. Configure rebalancer/treasury roles and deposit limits as required.'']])"
    and names: "deployedNames (calls (snd (script parseUnits mockClient scenarioEnv)))
      = [''AaveV3Strategy'', ''AttestifyVault'', ''TestProxy'']"
    and sent: "writes (snd (script parseUnits mockClient scenarioEnv))
      = [Write (address strategy) ''setVault'' [AddressArg (address proxy)]]"
    by blast
  have found: "deployer = ''0xdeployer''" "others = []" "chain = 31337"
    "strategy = \<lparr>address = ''0xAaveV3Strategy'', abi = ''AaveV3Strategy''\<rparr>"
    "implementation = \<lparr>address = ''0xAttestifyVault'', abi = ''AttestifyVault''\<rparr>"
    "initData = ''0xinit''"
    "proxy = \<lparr>address = ''0xTestProxy'', abi = ''TestProxy''\<rparr>"
    "vaultAbi = ''AttestifyVault''"
    using trace by (auto simp: run_eval loadConfig_scenarioEnv)
  from trace names sent show ?thesis
    unfolding found by simp
qed

lemma loadConfig_rebalancer_update:
  "loadConfig pu (env(''REBALANCER_ADDRESS'' := r)) =
     map_sum id (\<lambda>cfg. cfg\<lparr>rebalancer := r\<rparr>) (loadConfig pu env)"
  by (auto simp: loadConfig_def requireAddress_def getAmountEnv_def thenE_def Let_def
      split: sum.splits option.splits)

lemma deployment_empty_rebalancer:
  "deployment w (cfg\<lparr>rebalancer := Some []\<rparr>) = deployment w (cfg\<lparr>rebalancer := None\<rparr>)"
  by (simp add: deployment_def cong: if_cong)

text \<open>
  C10: with \<open>REBALANCER_ADDRESS\<close> set to the empty string the \<open>rebalancer\<close> field of the
  configuration is the empty string, no \<open>setRebalancer\<close> write is sent, and the whole
  run (outcome and events) is the one of the same environment with the variable
  absent.
\<close>

theorem empty_rebalancer_as_absent:
  "script pu w (env(''REBALANCER_ADDRESS'' \<mapsto> [])) = script pu w (env(''REBALANCER_ADDRESS'' := None))
   \<and> (\<forall>cfg. loadConfig pu (env(''REBALANCER_ADDRESS'' \<mapsto> [])) = Inr cfg
          \<longrightarrow> rebalancer cfg = Some [])
   \<and> writesOf ''setRebalancer'' (snd (script pu w (env(''REBALANCER_ADDRESS'' \<mapsto> [])))) = []"
proof -
  have same: "script pu w (env(''REBALANCER_ADDRESS'' \<mapsto> []))
      = script pu w (env(''REBALANCER_ADDRESS'' := None))"
    by (cases "loadConfig pu env")
      (simp_all add: script_def loadConfig_rebalancer_update deployment_empty_rebalancer)
  have field: "rebalancer cfg = Some []"
    if "loadConfig pu (env(''REBALANCER_ADDRESS'' \<mapsto> [])) = Inr cfg" for cfg
    using loadConfig_Inr(8) [OF that] by simp
  obtain out evs where this_run: "script pu w (env(''REBALANCER_ADDRESS'' \<mapsto> [])) = (out, evs)"
    by (cases "script pu w (env(''REBALANCER_ADDRESS'' \<mapsto> []))")
  have none: "writesOf ''setRebalancer'' evs = []"
    using this_run
  proof (cases rule: script_cases)
    case (config e)
    then show ?thesis by (simp add: writesOf_def)
  next
    case (run params)
    from loadConfig_Inr(8) [OF run(1)] have "rebalancer params = Some []"
      by simp
    with deployment_setRebalancer [OF run(2)] show ?thesis
      by auto
  qed
  from none this_run
  have "writesOf ''setRebalancer'' (snd (script pu w (env(''REBALANCER_ADDRESS'' \<mapsto> [])))) = []"
    by simp
  with same field show ?thesis
    by blast
qed

theorem empty_rebalancer_as_absent_witness:
  "map_sum id rebalancer (loadConfig parseUnits (sampleEnv(''REBALANCER_ADDRESS'' \<mapsto> [])))
     = Inr (Some [])
   \<and> script parseUnits mockClient (sampleEnv(''REBALANCER_ADDRESS'' \<mapsto> []))
     = script parseUnits mockClient (sampleEnv(''REBALANCER_ADDRESS'' := None))
   \<and> fst (script parseUnits mockClient (sampleEnv(''REBALANCER_ADDRESS'' \<mapsto> []))) = Inr ()
   \<and> writesOf ''setRebalancer''
       (snd (script parseUnits mockClient (sampleEnv(''REBALANCER_ADDRESS'' \<mapsto> [])))) = []"
proof -
  obtain cfg where cfg: "loadConfig parseUnits (sampleEnv(''REBALANCER_ADDRESS'' \<mapsto> [])) = Inr cfg"
    by (simp add: config_eval Number_18 parseUnits_1000_18 parseUnits_10000_18)
  have completes: "fst (script parseUnits mockClient (sampleEnv(''REBALANCER_ADDRESS'' \<mapsto> []))) = Inr ()"
    by (simp add: run_eval config_eval Number_18 parseUnits_1000_18 parseUnits_10000_18)
  note claim = empty_rebalancer_as_absent [of parseUnits mockClient sampleEnv]
  from claim cfg have "rebalancer cfg = Some []"
    by blast
  with cfg have "map_sum id rebalancer
      (loadConfig parseUnits (sampleEnv(''REBALANCER_ADDRESS'' \<mapsto> []))) = Inr (Some [])"
    by simp
  with claim completes show ?thesis
    by blast
qed

end
